theory Spec2Isabelle
  imports Complex_Main "HOL-Library.Multiset"
begin

section \<open>The recommendation engine of useSupabaseData.ts\<close>

text \<open>
  The three recommendation strategies of \<^verbatim>\<open>src/hooks/useSupabaseData.ts\<close>:
  \<^verbatim>\<open>getSmartPersonalizedSongs\<close> (session mode), \<^verbatim>\<open>getPersonalizedSongs\<close>
  (contextual mode) and \<^verbatim>\<open>fetchPersonalizedSongs\<close> (history mode).

  Scores are JavaScript numbers; they are modelled as real numbers, \<^verbatim>\<open>Math.log\<close> as
  the natural logarithm. Every call of \<^verbatim>\<open>Math.random()\<close> is a parameter: the
  strategies take a function \<open>rnd\<close> whose value at \<open>i\<close> is the number drawn for the
  \<open>i\<close>-th candidate. Every awaited read of the store is a parameter as well: the reply
  the store gave. The user's identifier only selects the rows the store returns, so the
  session and contextual strategies do not take it; the history strategy takes it
  because it returns early without a user. Logging is left out.
\<close>

subsection \<open>Strings\<close>

text \<open>
  \<^verbatim>\<open>Number.prototype.toString\<close> on an integer: its decimal digits, with a minus sign
  when negative.
\<close>

fun digits10 :: "nat \<Rightarrow> string" where
  "digits10 n =
     (if n < 10 then [char_of (48 + n)]
      else digits10 (n div 10) @ [char_of (48 + n mod 10)])"

declare digits10.simps [simp del]

definition toString :: "int \<Rightarrow> string" where
  "toString i = (if i < 0 then CHR ''-'' # digits10 (nat (- i)) else digits10 (nat i))"

text \<open>
  \<^verbatim>\<open>String.prototype.toLowerCase\<close> and \<^verbatim>\<open>String.prototype.trim\<close>, on the ASCII
  range: the letters A to Z are mapped to a to z, and the white space removed at both
  ends is tab, line feed, vertical tab, form feed, carriage return and space.
\<close>

definition lower_char :: "char \<Rightarrow> char" where
  "lower_char c =
     (let n = (of_char c :: nat) in if 65 \<le> n \<and> n \<le> 90 then char_of (n + 32) else c)"

definition toLowerCase :: "string \<Rightarrow> string" where
  "toLowerCase s = map lower_char s"

definition is_space :: "char \<Rightarrow> bool" where
  "is_space c = (let n = (of_char c :: nat) in (9 \<le> n \<and> n \<le> 13) \<or> n = 32)"

definition trim :: "string \<Rightarrow> string" where
  "trim s = rev (dropWhile is_space (rev (dropWhile is_space s)))"

subsection \<open>Data\<close>

text \<open>
  \<^verbatim>\<open>DatabaseSong\<close> (declared in \<^verbatim>\<open>@/lib/supabase\<close>) with the fields that
  \<^verbatim>\<open>convertDatabaseSong\<close> reads. The code guards \<^verbatim>\<open>tags\<close> with \<^verbatim>\<open>?.\<close> and the
  counters with \<^verbatim>\<open>|| 0\<close>, so the three may be null; the counters are counts, never
  negative. \<^verbatim>\<open>Song\<close> (declared in \<^verbatim>\<open>@/types\<close>) adds the fields that
  \<^verbatim>\<open>convertDatabaseSong\<close> adds; \<open>id\<close> and \<open>image\<close> are constants of HOL, so the
  two fields are \<open>id_str\<close> and \<open>image_url\<close>.
\<close>

record DatabaseSong =
  file_id :: int
  img_id :: int
  name :: string
  artist :: string
  language :: string
  tags :: "string list option"
  views :: "nat option"
  likes :: "nat option"

record Song = DatabaseSong +
  id_str :: string
  image_url :: string
  isLiked :: bool

text \<open>
  The rows of \<^verbatim>\<open>liked_songs\<close> (\<^verbatim>\<open>select('song_id')\<close>), of \<^verbatim>\<open>history\<close>
  (\<^verbatim>\<open>select('song_id, minutes_listened')\<close>) and of \<^verbatim>\<open>history\<close> joined with its
  song (\<^verbatim>\<open>songs (*)\<close>, null when the join finds none). Each select reads the
  columns of the one before and more, so each row type extends the one before.
\<close>

record liked_row =
  song_id :: int

record history_row = liked_row +
  minutes_listened :: "real option"

record history_song_row = history_row +
  songs :: "DatabaseSong option"

text \<open>
  What an awaited read gives: the object \<^verbatim>\<open>{ data, error }\<close>, where \<open>data\<close> may be
  null and \<open>error\<close> says whether the error field is set, or a rejected promise, which
  \<^verbatim>\<open>await\<close> turns into a throw.
\<close>

datatype 'a response = Response "'a list option" bool | Rejected

datatype thrown = Rejection

record scored =
  song :: Song
  score :: real

definition convertDatabaseSong :: "DatabaseSong \<Rightarrow> bool \<Rightarrow> Song" where
  "convertDatabaseSong dbSong liked =
     \<lparr> file_id = file_id dbSong, img_id = img_id dbSong, name = name dbSong,
       artist = artist dbSong, language = language dbSong, tags = tags dbSong,
       views = views dbSong, likes = likes dbSong,
       id_str = toString (file_id dbSong),
       image_url = ''https://images.pexels.com/photos/'' @ toString (img_id dbSong)
         @ ''/pexels-photo-'' @ toString (img_id dbSong)
         @ ''.jpeg?auto=compress&cs=tinysrgb&w=300'',
       isLiked = liked \<rparr>"

text \<open>
  \<^verbatim>\<open>const userLikedSongs = new Set(); if (likedData) likedData.forEach(item =>
  userLikedSongs.add(item.song_id))\<close>: the error field of this read is never looked at.
\<close>

definition likedIds :: "liked_row list option \<Rightarrow> int set" where
  "likedIds likedData = (case likedData of None \<Rightarrow> {} | Some rows \<Rightarrow> set (map song_id rows))"

text \<open>\<^verbatim>\<open>Math.log(1 + (song.likes || 0)) * 2\<close> and \<^verbatim>\<open>Math.log(1 + (song.views || 0)) * 1\<close>.\<close>

definition or0 :: "nat option \<Rightarrow> nat" where
  "or0 c = (case c of None \<Rightarrow> 0 | Some n \<Rightarrow> n)"

definition popularity :: "DatabaseSong \<Rightarrow> real" where
  "popularity dbSong = ln (1 + real (or0 (likes dbSong))) * 2 + ln (1 + real (or0 (views dbSong))) * 1"

text \<open>
  \<^verbatim>\<open>.sort((a, b) => b.score - a.score).slice(0, n)\<close>: \<^verbatim>\<open>Array.prototype.sort\<close> is
  stable, and so is \<open>sort_key\<close>; descending by score is ascending by the negated score.
\<close>

definition rankTop :: "nat \<Rightarrow> scored list \<Rightarrow> scored list" where
  "rankTop n scoredSongs = take n (sort_key (\<lambda>entry. - score entry) scoredSongs)"

subsection \<open>Session mode: getSmartPersonalizedSongs\<close>

definition tagsOrEmpty :: "'a DatabaseSong_scheme \<Rightarrow> string list" where
  "tagsOrEmpty s = (case tags s of None \<Rightarrow> [] | Some ts \<Rightarrow> ts)"

definition smart_preferredTags :: "Song list \<Rightarrow> string set" where
  "smart_preferredTags listenedSongsInBatch =
     set (concat (map (\<lambda>s. map toLowerCase (tagsOrEmpty s)) listenedSongsInBatch))"

definition smart_preferredArtists :: "Song list \<Rightarrow> string set" where
  "smart_preferredArtists listenedSongsInBatch =
     set (map (\<lambda>s. toLowerCase (artist s)) listenedSongsInBatch)"

definition smart_matchingTags :: "string set \<Rightarrow> DatabaseSong \<Rightarrow> string list" where
  "smart_matchingTags preferredTags dbSong =
     (let songTags = map toLowerCase (tagsOrEmpty dbSong)
      in filter (\<lambda>tag. tag \<in> preferredTags) songTags)"

definition smart_score ::
  "Song list \<Rightarrow> int set \<Rightarrow> real \<Rightarrow> DatabaseSong \<Rightarrow> real" where
  "smart_score listenedSongsInBatch userLikedSongs r dbSong =
     (let preferredTags = smart_preferredTags listenedSongsInBatch;
          preferredArtists = smart_preferredArtists listenedSongsInBatch;
          listenedLanguages = map language listenedSongsInBatch
      in real (length (smart_matchingTags preferredTags dbSong)) * 25
         + (if toLowerCase (artist dbSong) \<in> preferredArtists then 30 else 0)
         + (if language dbSong \<in> set listenedLanguages then 15 else 0)
         + popularity dbSong
         + (if file_id dbSong \<in> userLikedSongs then 10 else 0)
         + r * 2)"

definition smart_scoredSongs ::
  "(nat \<Rightarrow> real) \<Rightarrow> Song list \<Rightarrow> int set \<Rightarrow> DatabaseSong list \<Rightarrow> scored list" where
  "smart_scoredSongs rnd listenedSongsInBatch userLikedSongs availableSongs =
     map (\<lambda>(i, dbSong).
            \<lparr> song = convertDatabaseSong dbSong (file_id dbSong \<in> userLikedSongs),
              score = smart_score listenedSongsInBatch userLikedSongs (rnd i) dbSong \<rparr>)
         (zip [0 ..< length availableSongs] availableSongs)"

definition smart_availableSongs :: "string set \<Rightarrow> DatabaseSong list \<Rightarrow> DatabaseSong list" where
  "smart_availableSongs excludeSongs songsData =
     filter (\<lambda>dbSong. toString (file_id dbSong) \<notin> excludeSongs) songsData"

text \<open>The body of the \<^verbatim>\<open>try\<close> block: \<open>Inl\<close> is a throw, \<open>Inr\<close> a return.\<close>

definition getSmartPersonalizedSongs_try ::
  "(nat \<Rightarrow> real) \<Rightarrow> DatabaseSong response \<Rightarrow> liked_row response \<Rightarrow> Song list
     \<Rightarrow> string set \<Rightarrow> thrown + Song list" where
  "getSmartPersonalizedSongs_try rnd songsRead likedRead listenedSongsInBatch excludeSongs =
     (if length listenedSongsInBatch = 0 then Inr []
      else (case songsRead of
        Rejected \<Rightarrow> Inl Rejection
      | Response songsData songsError \<Rightarrow>
          (if songsError then Inr []
           else (case songsData of
             None \<Rightarrow> Inr []
           | Some songsRows \<Rightarrow>
               (if length songsRows = 0 then Inr []
                else (case likedRead of
                  Rejected \<Rightarrow> Inl Rejection
                | Response likedData likedError \<Rightarrow>
                    (let userLikedSongs = likedIds likedData;
                         availableSongs = smart_availableSongs excludeSongs songsRows
                     in (if length availableSongs = 0 then Inr []
                         else Inr (map song (rankTop 15
                                (smart_scoredSongs rnd listenedSongsInBatch userLikedSongs
                                   availableSongs)))))))))))"

text \<open>\<^verbatim>\<open>catch (error) { return []; }\<close>\<close>

definition getSmartPersonalizedSongs ::
  "(nat \<Rightarrow> real) \<Rightarrow> DatabaseSong response \<Rightarrow> liked_row response \<Rightarrow> Song list
     \<Rightarrow> string set \<Rightarrow> Song list" where
  "getSmartPersonalizedSongs rnd songsRead likedRead listenedSongsInBatch excludeSongs =
     (case getSmartPersonalizedSongs_try rnd songsRead likedRead listenedSongsInBatch excludeSongs of
        Inl e \<Rightarrow> []
      | Inr recommendations \<Rightarrow> recommendations)"

subsection \<open>Contextual mode: getPersonalizedSongs\<close>

text \<open>
  \<^verbatim>\<open>historyData.forEach(h => historyMap.set(h.song_id, h.minutes_listened || 0))\<close>:
  the rows are stored one after the other, \<^verbatim>\<open>Map.prototype.set\<close> replacing what the
  key held.
\<close>

definition minutesOr0 :: "real option \<Rightarrow> real" where
  "minutesOr0 m = (case m of None \<Rightarrow> 0 | Some x \<Rightarrow> x)"

definition buildHistoryMap :: "history_row list option \<Rightarrow> (int \<rightharpoonup> real)" where
  "buildHistoryMap historyData =
     (case historyData of
        None \<Rightarrow> Map.empty
      | Some rows \<Rightarrow>
          foldl (\<lambda>historyMap h. historyMap(song_id h \<mapsto> minutesOr0 (minutes_listened h)))
            Map.empty rows)"

definition personalized_availableSongs ::
  "Song \<Rightarrow> string set option \<Rightarrow> DatabaseSong list \<Rightarrow> DatabaseSong list" where
  "personalized_availableSongs currentSong listenedSongs songsData =
     filter (\<lambda>dbSong.
        if file_id dbSong = file_id currentSong then False
        else if (case listenedSongs of
                   None \<Rightarrow> False
                 | Some listened \<Rightarrow> toString (file_id dbSong) \<in> listened) then False
        else True) songsData"

text \<open>
  \<^verbatim>\<open>song.tags?.filter(tag => currentSong.tags?.includes(tag)) || []\<close>: the tags are
  compared as they are stored.
\<close>

definition personalized_matchingTags :: "Song \<Rightarrow> DatabaseSong \<Rightarrow> string list" where
  "personalized_matchingTags currentSong dbSong =
     (case tags dbSong of
        None \<Rightarrow> []
      | Some ts \<Rightarrow>
          filter (\<lambda>tag. case tags currentSong of None \<Rightarrow> False | Some cts \<Rightarrow> tag \<in> set cts) ts)"

text \<open>
  \<^verbatim>\<open>const listenedMinutes = historyMap.get(song.file_id) || 0;
  score += Math.min(listenedMinutes * 2, 20)\<close>
\<close>

definition historyBoost :: "(int \<rightharpoonup> real) \<Rightarrow> DatabaseSong \<Rightarrow> real" where
  "historyBoost historyMap dbSong =
     (let listenedMinutes = (case historyMap (file_id dbSong) of None \<Rightarrow> 0 | Some m \<Rightarrow> m)
      in min (listenedMinutes * 2) 20)"

definition personalized_score ::
  "Song \<Rightarrow> (int \<rightharpoonup> real) \<Rightarrow> int set \<Rightarrow> real \<Rightarrow> DatabaseSong \<Rightarrow> real" where
  "personalized_score currentSong historyMap userLikedSongs r dbSong =
     real (length (personalized_matchingTags currentSong dbSong)) * 15
     + (if artist dbSong = artist currentSong then 25 else 0)
     + (if language dbSong = language currentSong then 10 else 0)
     + historyBoost historyMap dbSong
     + popularity dbSong
     + (if file_id dbSong \<in> userLikedSongs then 8 else 0)
     + r * 3"

definition personalized_scoredSongs ::
  "(nat \<Rightarrow> real) \<Rightarrow> Song \<Rightarrow> (int \<rightharpoonup> real) \<Rightarrow> int set \<Rightarrow> DatabaseSong list
     \<Rightarrow> scored list" where
  "personalized_scoredSongs rnd currentSong historyMap userLikedSongs availableSongs =
     map (\<lambda>(i, dbSong).
            \<lparr> song = convertDatabaseSong dbSong (file_id dbSong \<in> userLikedSongs),
              score = personalized_score currentSong historyMap userLikedSongs (rnd i) dbSong \<rparr>)
         (zip [0 ..< length availableSongs] availableSongs)"

text \<open>
  The error of the history read is logged and the function goes on; the error of the
  liked read is not looked at.
\<close>

definition getPersonalizedSongs_try ::
  "(nat \<Rightarrow> real) \<Rightarrow> DatabaseSong response \<Rightarrow> history_row response \<Rightarrow> liked_row response
     \<Rightarrow> Song \<Rightarrow> string set option \<Rightarrow> thrown + Song list" where
  "getPersonalizedSongs_try rnd songsRead historyRead likedRead currentSong listenedSongs =
     (case songsRead of
        Rejected \<Rightarrow> Inl Rejection
      | Response songsData songsError \<Rightarrow>
          (if songsError then Inr []
           else (case songsData of
             None \<Rightarrow> Inr []
           | Some songsRows \<Rightarrow>
               (if length songsRows = 0 then Inr []
                else (case historyRead of
                  Rejected \<Rightarrow> Inl Rejection
                | Response historyData historyError \<Rightarrow>
                    (case likedRead of
                       Rejected \<Rightarrow> Inl Rejection
                     | Response likedData likedError \<Rightarrow>
                         (let historyMap = buildHistoryMap historyData;
                              userLikedSongs = likedIds likedData;
                              availableSongs =
                                personalized_availableSongs currentSong listenedSongs songsRows
                          in (if length availableSongs = 0 then Inr []
                              else Inr (map song (rankTop 10
                                     (personalized_scoredSongs rnd currentSong historyMap
                                        userLikedSongs availableSongs)))))))))))"

definition getPersonalizedSongs ::
  "(nat \<Rightarrow> real) \<Rightarrow> DatabaseSong response \<Rightarrow> history_row response \<Rightarrow> liked_row response
     \<Rightarrow> Song \<Rightarrow> string set option \<Rightarrow> Song list" where
  "getPersonalizedSongs rnd songsRead historyRead likedRead currentSong listenedSongs =
     (case getPersonalizedSongs_try rnd songsRead historyRead likedRead currentSong listenedSongs of
        Inl e \<Rightarrow> []
      | Inr recommendations \<Rightarrow> recommendations)"

subsection \<open>History mode: fetchPersonalizedSongs\<close>

text \<open>
  \<^verbatim>\<open>historyData.filter(item => item.songs).map(item => item.songs)\<close>
\<close>

definition topSongs :: "history_song_row list \<Rightarrow> DatabaseSong list" where
  "topSongs historyData = map (\<lambda>item. the (songs item)) (filter (\<lambda>item. songs item \<noteq> None) historyData)"

definition historySongIds :: "history_song_row list \<Rightarrow> int set" where
  "historySongIds historyData = set (map file_id (topSongs historyData))"

text \<open>
  \<^verbatim>\<open>counts.set(key, (counts.get(key) || 0) + 1)\<close> on a \<^verbatim>\<open>Map\<close>, whose entries keep
  the order of their first insertion: an association list, a new key going to the end.
\<close>

fun countUp :: "string \<Rightarrow> (string \<times> nat) list \<Rightarrow> (string \<times> nat) list" where
  "countUp key [] = [(key, 1)]"
| "countUp key ((k, c) # rest) =
     (if key = k then (k, c + 1) # rest else (k, c) # countUp key rest)"

definition normalize :: "string \<Rightarrow> string" where
  "normalize s = trim (toLowerCase s)"

definition tagCounts :: "DatabaseSong list \<Rightarrow> (string \<times> nat) list" where
  "tagCounts topRows =
     foldl (\<lambda>counts normalizedTag. countUp normalizedTag counts) []
       (concat (map (\<lambda>s. map normalize (tagsOrEmpty s)) topRows))"

definition artistCounts :: "DatabaseSong list \<Rightarrow> (string \<times> nat) list" where
  "artistCounts topRows =
     foldl (\<lambda>counts normalizedArtist. countUp normalizedArtist counts) []
       (map (\<lambda>s. normalize (artist s)) topRows)"

text \<open>
  \<^verbatim>\<open>Array.from(counts.entries()).sort((a, b) => b[1] - a[1]).slice(0, n).map(([key]) => key)\<close>
\<close>

definition mostCommon :: "nat \<Rightarrow> (string \<times> nat) list \<Rightarrow> string list" where
  "mostCommon n counts = map fst (take n (sort_key (\<lambda>entry. - int (snd entry)) counts))"

definition commonTags :: "DatabaseSong list \<Rightarrow> string list" where
  "commonTags topRows = mostCommon 5 (tagCounts topRows)"

definition commonArtists :: "DatabaseSong list \<Rightarrow> string list" where
  "commonArtists topRows = mostCommon 3 (artistCounts topRows)"

definition history_matchingTags :: "string list \<Rightarrow> DatabaseSong \<Rightarrow> string list" where
  "history_matchingTags common dbSong =
     (case tags dbSong of
        None \<Rightarrow> []
      | Some ts \<Rightarrow> (let songTags = map normalize ts in filter (\<lambda>tag. tag \<in> set common) songTags))"

definition history_score ::
  "string list \<Rightarrow> string list \<Rightarrow> int set \<Rightarrow> real \<Rightarrow> DatabaseSong \<Rightarrow> real" where
  "history_score cTags cArtists userLikedSongs r dbSong =
     real (length (history_matchingTags cTags dbSong)) * 20
     + (if normalize (artist dbSong) \<in> set cArtists then 25 else 0)
     + (if file_id dbSong \<in> userLikedSongs then 10 else 0)
     + popularity dbSong
     + r * 3"

definition history_scoredSongs ::
  "(nat \<Rightarrow> real) \<Rightarrow> string list \<Rightarrow> string list \<Rightarrow> int set \<Rightarrow> DatabaseSong list
     \<Rightarrow> scored list" where
  "history_scoredSongs rnd cTags cArtists userLikedSongs availableSongs =
     map (\<lambda>(i, dbSong).
            \<lparr> song = convertDatabaseSong dbSong (file_id dbSong \<in> userLikedSongs),
              score = history_score cTags cArtists userLikedSongs (rnd i) dbSong \<rparr>)
         (zip [0 ..< length availableSongs] availableSongs)"

definition history_availableSongs ::
  "history_song_row list \<Rightarrow> DatabaseSong list \<Rightarrow> DatabaseSong list" where
  "history_availableSongs historyData allSongs =
     filter (\<lambda>dbSong. file_id dbSong \<notin> historySongIds historyData) allSongs"

text \<open>
  The trending fallback of \<^verbatim>\<open>fetchPersonalizedSongs\<close>: when the trending read gives
  no data, \<^verbatim>\<open>setPersonalizedSongs\<close> is not called.
\<close>

definition trendingFallback ::
  "DatabaseSong response \<Rightarrow> liked_row response \<Rightarrow> Song list \<Rightarrow> thrown + Song list" where
  "trendingFallback trendingRead likedRead personalizedSongs =
     (case trendingRead of
        Rejected \<Rightarrow> Inl Rejection
      | Response trendingSongs trendingError \<Rightarrow>
          (case trendingSongs of
             None \<Rightarrow> Inr personalizedSongs
           | Some trendingRows \<Rightarrow>
               (case likedRead of
                  Rejected \<Rightarrow> Inl Rejection
                | Response likedData likedError \<Rightarrow>
                    (let userLikedSongs = likedIds likedData
                     in Inr (map (\<lambda>dbSong.
                               convertDatabaseSong dbSong (file_id dbSong \<in> userLikedSongs))
                             trendingRows)))))"

text \<open>
  The personalised branch, once the history read has given rows.
\<close>

definition historyRecommendations ::
  "(nat \<Rightarrow> real) \<Rightarrow> history_song_row list \<Rightarrow> DatabaseSong response \<Rightarrow> liked_row response
     \<Rightarrow> thrown + Song list" where
  "historyRecommendations rnd historyRows allSongsRead likedRead =
     (let topRows = topSongs historyRows;
          cTags = commonTags topRows;
          cArtists = commonArtists topRows
      in (case allSongsRead of
            Rejected \<Rightarrow> Inl Rejection
          | Response allSongs songsError \<Rightarrow>
              (if songsError then Inr []
               else (case allSongs of
                 None \<Rightarrow> Inr []
               | Some allRows \<Rightarrow>
                   (if length allRows = 0 then Inr []
                    else (case likedRead of
                      Rejected \<Rightarrow> Inl Rejection
                    | Response likedData likedError \<Rightarrow>
                        (let userLikedSongs = likedIds likedData;
                             availableSongs = history_availableSongs historyRows allRows
                         in (if length availableSongs = 0 then Inr []
                             else Inr (map song (rankTop 30
                                    (history_scoredSongs rnd cTags cArtists userLikedSongs
                                       availableSongs)))))))))))"

text \<open>
  The body of the \<^verbatim>\<open>try\<close> block. The function returns nothing and writes the state
  \<^verbatim>\<open>personalizedSongs\<close>: the model takes the state before the call and returns the
  state after it.
\<close>

definition fetchPersonalizedSongs_try ::
  "(nat \<Rightarrow> real) \<Rightarrow> history_song_row response \<Rightarrow> DatabaseSong response
     \<Rightarrow> DatabaseSong response \<Rightarrow> liked_row response \<Rightarrow> Song list \<Rightarrow> thrown + Song list" where
  "fetchPersonalizedSongs_try rnd historyRead trendingRead allSongsRead likedRead personalizedSongs =
     (case historyRead of
        Rejected \<Rightarrow> Inl Rejection
      | Response historyData historyError \<Rightarrow>
          (if historyError then Inr []
           else (case historyData of
             None \<Rightarrow> trendingFallback trendingRead likedRead personalizedSongs
           | Some historyRows \<Rightarrow>
               (if length historyRows = 0
                then trendingFallback trendingRead likedRead personalizedSongs
                else historyRecommendations rnd historyRows allSongsRead likedRead))))"

text \<open>
  \<open>user\<close> is the identifier of the signed-in user, \<open>None\<close> when there is none.
\<close>

definition fetchPersonalizedSongs ::
  "string option \<Rightarrow> (nat \<Rightarrow> real) \<Rightarrow> history_song_row response \<Rightarrow> DatabaseSong response
     \<Rightarrow> DatabaseSong response \<Rightarrow> liked_row response \<Rightarrow> Song list \<Rightarrow> Song list" where
  "fetchPersonalizedSongs user rnd historyRead trendingRead allSongsRead likedRead personalizedSongs =
     (case user of
        None \<Rightarrow> []
      | Some userId \<Rightarrow>
          (case fetchPersonalizedSongs_try rnd historyRead trendingRead allSongsRead likedRead
                  personalizedSongs of
             Inl e \<Rightarrow> []
           | Inr newState \<Rightarrow> newState))"

text \<open>
  Modelled from the spec: the read \<^verbatim>\<open>.from('songs').select('*').order('views',
  { ascending: false }).limit(20)\<close> is answered by the storage collaborator, whose query
  layer is not part of the source. The spec describes its answer as the catalog sorted
  by view count descending, topRows 20; a null count is ranked as 0, the value the scorer
  reads it as.
\<close>

definition trendingSongs :: "DatabaseSong list \<Rightarrow> DatabaseSong list" where
  "trendingSongs catalog = take 20 (sort_key (\<lambda>dbSong. - int (or0 (views dbSong))) catalog)"

subsection \<open>The history table\<close>

text \<open>
  Modelled from the spec: the stored procedure \<^verbatim>\<open>upsert_history_minutes\<close>, which
  \<^verbatim>\<open>recordListeningHistory\<close> and \<^verbatim>\<open>stopCurrentSongTracking\<close> call with a track and
  the minutes just listened (and log as \<^verbatim>\<open>+${minutes} mins\<close>), runs in the store and is
  not part of the source. The spec: a listening signal is a track identifier plus a
  duration in minutes, and "multiple signals for the same track accumulate (duration
  sums), never overwrite". On the history rows of one user: the track's row gets the
  minutes added, and a track without a row gets a new row.
\<close>

fun upsert_history_minutes :: "int \<Rightarrow> real \<Rightarrow> history_row list \<Rightarrow> history_row list" where
  "upsert_history_minutes song_file_id minutes [] =
     [\<lparr> song_id = song_file_id, minutes_listened = Some minutes \<rparr>]"
| "upsert_history_minutes song_file_id minutes (row # rest) =
     (if song_id row = song_file_id
      then row \<lparr> minutes_listened := Some (minutesOr0 (minutes_listened row) + minutes) \<rparr> # rest
      else row # upsert_history_minutes song_file_id minutes rest)"


subsection \<open>Example inputs\<close>

text \<open>
  A catalog of three tracks without counters, a session in which track 2 was played, the
  same track as the current one, and a history of one row for track 1. They are the
  concrete inputs at which the theorems below are instantiated.
\<close>

definition exampleSong :: "int \<Rightarrow> string \<Rightarrow> string list option \<Rightarrow> DatabaseSong" where
  "exampleSong i a ts =
     \<lparr> file_id = i, img_id = i, name = ''song'', artist = a, language = ''en'', tags = ts,
       views = None, likes = None \<rparr>"

definition exampleCatalog :: "DatabaseSong list" where
  "exampleCatalog =
     [exampleSong 1 ''Abba'' (Some [''Pop'']), exampleSong 2 ''Queen'' (Some [''rock'']),
      exampleSong 3 ''Queen'' (Some [''Rock'', ''pop''])]"

definition exampleCurrent :: Song where
  "exampleCurrent = convertDatabaseSong (exampleSong 2 ''Queen'' (Some [''rock''])) False"

definition exampleBatch :: "Song list" where
  "exampleBatch = [exampleCurrent]"

definition exampleHistory :: "history_song_row list" where
  "exampleHistory =
     [\<lparr> song_id = 1, minutes_listened = Some 5,
        songs = Some (exampleSong 1 ''Abba'' (Some [''Pop''])) \<rparr>]"

definition exampleViews :: "DatabaseSong list" where
  "exampleViews =
     [(exampleSong 1 ''Abba'' (Some [''Pop''])) \<lparr> views := Some 5 \<rparr>,
      (exampleSong 2 ''Queen'' (Some [''rock''])) \<lparr> views := Some 100 \<rparr>,
      exampleSong 3 ''Queen'' (Some [''Rock'', ''pop''])]"

section \<open>Properties\<close>

subsection \<open>The ranker and the origin of the recommendations\<close>

lemma length_rankTop: "length (rankTop n xs) = min n (length xs)"
  by (simp add: rankTop_def)

lemma set_rankTop: "set (rankTop n xs) \<subseteq> set xs"
  unfolding rankTop_def using set_take_subset [of n "sort_key (\<lambda>entry. - score entry) xs"] by simp

lemma mset_rankTop: "length xs \<le> n \<Longrightarrow> mset (rankTop n xs) = mset xs"
  by (simp add: rankTop_def)

lemma sorted_rankTop: "sorted_wrt (\<lambda>a b. score b \<le> score a) (rankTop n xs)"
proof -
  have "sorted (map (\<lambda>entry. - score entry) (sort_key (\<lambda>entry. - score entry) xs))"
    by (rule sorted_sort_key)
  then have "sorted (take n (map (\<lambda>entry. - score entry) (sort_key (\<lambda>entry. - score entry) xs)))"
    by (rule sorted_wrt_take)
  then have "sorted (map (\<lambda>entry. - score entry) (rankTop n xs))"
    by (simp add: rankTop_def take_map)
  then show ?thesis
    by (simp add: sorted_wrt_map)
qed

lemma distinct_rankTop:
  assumes "distinct (map f xs)"
  shows "distinct (map f (rankTop n xs))"
proof -
  have "mset (map f (sort_key (\<lambda>entry. - score entry) xs)) = mset (map f xs)"
    by simp
  then have "distinct (map f (sort_key (\<lambda>entry. - score entry) xs))"
    using assms by (metis mset_eq_imp_distinct_iff)
  then have "distinct (take n (map f (sort_key (\<lambda>entry. - score entry) xs)))"
    by (rule distinct_take)
  then show ?thesis
    by (simp add: rankTop_def take_map)
qed

lemma map_zip_snd:
  "length ns = length xs \<Longrightarrow> map (\<lambda>(i, x). g x) (zip ns xs) = map g xs"
  by (induction ns xs rule: list_induct2) simp_all

lemma map_indexed: "map (\<lambda>(i, x). g x) (zip [0 ..< length xs] xs) = map g xs"
  by (rule map_zip_snd) simp

lemma song_smart_scoredSongs:
  "map song (smart_scoredSongs rnd batch liked avail) =
     map (\<lambda>d. convertDatabaseSong d (file_id d \<in> liked)) avail"
proof -
  have "map song (smart_scoredSongs rnd batch liked avail) =
        map (\<lambda>(i, d). convertDatabaseSong d (file_id d \<in> liked)) (zip [0 ..< length avail] avail)"
    by (simp add: smart_scoredSongs_def case_prod_unfold comp_def)
  then show ?thesis by (simp add: map_indexed)
qed


lemma song_personalized_scoredSongs:
  "map song (personalized_scoredSongs rnd cur hm liked avail) =
     map (\<lambda>d. convertDatabaseSong d (file_id d \<in> liked)) avail"
proof -
  have "map song (personalized_scoredSongs rnd cur hm liked avail) =
        map (\<lambda>(i, d). convertDatabaseSong d (file_id d \<in> liked)) (zip [0 ..< length avail] avail)"
    by (simp add: personalized_scoredSongs_def case_prod_unfold comp_def)
  then show ?thesis by (simp add: map_indexed)
qed

lemma song_history_scoredSongs:
  "map song (history_scoredSongs rnd ct ca liked avail) =
     map (\<lambda>d. convertDatabaseSong d (file_id d \<in> liked)) avail"
proof -
  have "map song (history_scoredSongs rnd ct ca liked avail) =
        map (\<lambda>(i, d). convertDatabaseSong d (file_id d \<in> liked)) (zip [0 ..< length avail] avail)"
    by (simp add: history_scoredSongs_def case_prod_unfold comp_def)
  then show ?thesis by (simp add: map_indexed)
qed

lemma set_song_rankTop: "set (map song (rankTop n sc)) \<subseteq> set (map song sc)"
  using set_rankTop [of n sc] by auto

lemma file_id_convert [simp]: "file_id (convertDatabaseSong d b) = file_id d"
  by (simp add: convertDatabaseSong_def)

lemma id_str_convert [simp]: "id_str (convertDatabaseSong d b) = toString (file_id d)"
  by (simp add: convertDatabaseSong_def)

lemma isLiked_convert [simp]: "isLiked (convertDatabaseSong d b) = b"
  by (simp add: convertDatabaseSong_def)

text \<open>Where each strategy's recommendations come from.\<close>

lemma smart_try_origin:
  assumes "getSmartPersonalizedSongs_try rnd songsRead likedRead batch excl = Inr recs"
    and "r \<in> set recs"
  shows "\<exists>rows err likedData likedErr d. songsRead = Response (Some rows) err
           \<and> likedRead = Response likedData likedErr
           \<and> d \<in> set (smart_availableSongs excl rows)
           \<and> r = convertDatabaseSong d (file_id d \<in> likedIds likedData)"
proof -
  from assms obtain rows err likedData likedErr where
    sr: "songsRead = Response (Some rows) err" and lr: "likedRead = Response likedData likedErr"
    and recs: "recs = map song (rankTop 15 (smart_scoredSongs rnd batch (likedIds likedData)
                 (smart_availableSongs excl rows)))"
    by (auto simp: getSmartPersonalizedSongs_try_def Let_def
          split: if_splits response.splits option.splits)
  from assms(2) recs set_song_rankTop
  have "r \<in> set (map song (smart_scoredSongs rnd batch (likedIds likedData)
                 (smart_availableSongs excl rows)))"
    by blast
  then have "r \<in> set (map (\<lambda>d. convertDatabaseSong d (file_id d \<in> likedIds likedData))
                 (smart_availableSongs excl rows))"
    by (simp only: song_smart_scoredSongs)
  with sr lr show ?thesis by auto
qed

lemma smart_origin:
  assumes "r \<in> set (getSmartPersonalizedSongs rnd songsRead likedRead batch excl)"
  shows "\<exists>rows err likedData likedErr d. songsRead = Response (Some rows) err
           \<and> likedRead = Response likedData likedErr
           \<and> d \<in> set (smart_availableSongs excl rows)
           \<and> r = convertDatabaseSong d (file_id d \<in> likedIds likedData)"
proof (cases "getSmartPersonalizedSongs_try rnd songsRead likedRead batch excl")
  case (Inl e)
  with assms show ?thesis by (simp add: getSmartPersonalizedSongs_def)
next
  case (Inr recs)
  with assms have "r \<in> set recs" by (simp add: getSmartPersonalizedSongs_def)
  with Inr show ?thesis by (rule smart_try_origin)
qed

lemma personalized_try_origin:
  assumes "getPersonalizedSongs_try rnd songsRead historyRead likedRead cur listened = Inr recs"
    and "r \<in> set recs"
  shows "\<exists>rows err likedData likedErr d. songsRead = Response (Some rows) err
           \<and> likedRead = Response likedData likedErr
           \<and> d \<in> set (personalized_availableSongs cur listened rows)
           \<and> r = convertDatabaseSong d (file_id d \<in> likedIds likedData)"
proof -
  from assms obtain rows err historyData historyErr likedData likedErr where
    sr: "songsRead = Response (Some rows) err" and lr: "likedRead = Response likedData likedErr"
    and recs: "recs = map song (rankTop 10 (personalized_scoredSongs rnd cur
                 (buildHistoryMap historyData) (likedIds likedData)
                 (personalized_availableSongs cur listened rows)))"
    by (auto simp: getPersonalizedSongs_try_def Let_def
          split: if_splits response.splits option.splits)
  from assms(2) recs set_song_rankTop
  have "r \<in> set (map song (personalized_scoredSongs rnd cur
                 (buildHistoryMap historyData) (likedIds likedData)
                 (personalized_availableSongs cur listened rows)))"
    by blast
  then have "r \<in> set (map (\<lambda>d. convertDatabaseSong d (file_id d \<in> likedIds likedData))
                 (personalized_availableSongs cur listened rows))"
    by (simp only: song_personalized_scoredSongs)
  with sr lr show ?thesis by auto
qed

lemma personalized_origin:
  assumes "r \<in> set (getPersonalizedSongs rnd songsRead historyRead likedRead cur listened)"
  shows "\<exists>rows err likedData likedErr d. songsRead = Response (Some rows) err
           \<and> likedRead = Response likedData likedErr
           \<and> d \<in> set (personalized_availableSongs cur listened rows)
           \<and> r = convertDatabaseSong d (file_id d \<in> likedIds likedData)"
proof (cases "getPersonalizedSongs_try rnd songsRead historyRead likedRead cur listened")
  case (Inl e)
  with assms show ?thesis by (simp add: getPersonalizedSongs_def)
next
  case (Inr recs)
  with assms have "r \<in> set recs" by (simp add: getPersonalizedSongs_def)
  with Inr show ?thesis by (rule personalized_try_origin)
qed

lemma historyRecommendations_origin:
  assumes "historyRecommendations rnd historyRows allSongsRead likedRead = Inr recs"
    and "r \<in> set recs"
  shows "\<exists>rows err likedData likedErr d. allSongsRead = Response (Some rows) err
           \<and> likedRead = Response likedData likedErr
           \<and> d \<in> set (history_availableSongs historyRows rows)
           \<and> r = convertDatabaseSong d (file_id d \<in> likedIds likedData)"
proof -
  from assms obtain rows err likedData likedErr where
    sr: "allSongsRead = Response (Some rows) err" and lr: "likedRead = Response likedData likedErr"
    and recs: "recs = map song (rankTop 30 (history_scoredSongs rnd
                 (commonTags (topSongs historyRows)) (commonArtists (topSongs historyRows))
                 (likedIds likedData) (history_availableSongs historyRows rows)))"
    by (auto simp: historyRecommendations_def Let_def
          split: if_splits response.splits option.splits)
  from assms(2) recs set_song_rankTop
  have "r \<in> set (map song (history_scoredSongs rnd
                 (commonTags (topSongs historyRows)) (commonArtists (topSongs historyRows))
                 (likedIds likedData) (history_availableSongs historyRows rows)))"
    by blast
  then have "r \<in> set (map (\<lambda>d. convertDatabaseSong d (file_id d \<in> likedIds likedData))
                 (history_availableSongs historyRows rows))"
    by (simp only: song_history_scoredSongs)
  with sr lr show ?thesis by auto
qed

text \<open>With history rows, the state written is the personalised branch's, or empty.\<close>

lemma fetch_with_history:
  assumes "historyRows \<noteq> []"
  shows "fetchPersonalizedSongs user rnd (Response (Some historyRows) historyErr) trendingRead
           allSongsRead likedRead st =
         (if user = None \<or> historyErr then []
          else (case historyRecommendations rnd historyRows allSongsRead likedRead of
                  Inl e \<Rightarrow> [] | Inr recs \<Rightarrow> recs))"
  using assms
  by (simp add: fetchPersonalizedSongs_def fetchPersonalizedSongs_try_def split: option.splits)

lemma fetch_history_origin:
  assumes "historyRows \<noteq> []"
    and "r \<in> set (fetchPersonalizedSongs user rnd (Response (Some historyRows) historyErr)
           trendingRead allSongsRead likedRead st)"
  shows "\<exists>rows err likedData likedErr d. allSongsRead = Response (Some rows) err
           \<and> likedRead = Response likedData likedErr
           \<and> d \<in> set (history_availableSongs historyRows rows)
           \<and> r = convertDatabaseSong d (file_id d \<in> likedIds likedData)"
proof (cases "historyRecommendations rnd historyRows allSongsRead likedRead")
  case (Inl e)
  with assms show ?thesis by (simp add: fetch_with_history split: if_splits)
next
  case (Inr recs)
  with assms have "r \<in> set recs" by (simp add: fetch_with_history split: if_splits)
  with Inr show ?thesis by (rule historyRecommendations_origin)
qed

lemma history_song_in_ids:
  "item \<in> set historyRows \<Longrightarrow> songs item = Some s \<Longrightarrow> file_id s \<in> historySongIds historyRows"
  by (force simp: historySongIds_def topSongs_def)

subsection \<open>C1: excluded tracks are not recommended\<close>

text \<open>
  C1. No excluded track is recommended. In session mode no returned song has an
  identifier from the caller's exclusion set. In contextual mode no returned song is the
  current track, and none has an identifier from the caller's listened set when one is
  given. In history mode no song written to the state is one of the history tracks, the
  songs joined to the rows that the history read returned (the read is limited to the
  ten rows with the most minutes).
\<close>

theorem excluded_ids_absent:
  "(\<forall>x \<in> excludeSongs.
      x \<notin> id_str ` set (getSmartPersonalizedSongs rnd songsRead likedRead listenedSongsInBatch
                          excludeSongs))
   \<and> file_id currentSong
        \<notin> file_id ` set (getPersonalizedSongs rnd songsRead historyRead likedRead currentSong
                            listenedSongs)
   \<and> (\<forall>x \<in> (case listenedSongs of None \<Rightarrow> {} | Some listened \<Rightarrow> listened).
        x \<notin> id_str ` set (getPersonalizedSongs rnd songsRead historyRead likedRead currentSong
                            listenedSongs))
   \<and> (\<forall>item \<in> set historyRows. \<forall>s. songs item = Some s \<longrightarrow>
        file_id s \<notin> file_id ` set (fetchPersonalizedSongs user rnd
                                      (Response (Some historyRows) historyErr) trendingRead
                                      allSongsRead likedRead personalizedSongs))"
proof (intro conjI ballI allI impI)
  fix x assume x: "x \<in> excludeSongs"
  show "x \<notin> id_str ` set (getSmartPersonalizedSongs rnd songsRead likedRead listenedSongsInBatch
                            excludeSongs)"
  proof
    assume "x \<in> id_str ` set (getSmartPersonalizedSongs rnd songsRead likedRead
                                 listenedSongsInBatch excludeSongs)"
    then obtain r where r: "r \<in> set (getSmartPersonalizedSongs rnd songsRead likedRead
                                 listenedSongsInBatch excludeSongs)" and xr: "x = id_str r"
      by blast
    from smart_origin [OF r] obtain rows d b where
      "d \<in> set (smart_availableSongs excludeSongs rows)" "r = convertDatabaseSong d b"
      by blast
    with x xr show False by (simp add: smart_availableSongs_def)
  qed
next
  show "file_id currentSong
        \<notin> file_id ` set (getPersonalizedSongs rnd songsRead historyRead likedRead currentSong
                            listenedSongs)"
  proof
    assume "file_id currentSong
        \<in> file_id ` set (getPersonalizedSongs rnd songsRead historyRead likedRead currentSong
                            listenedSongs)"
    then obtain r where r: "r \<in> set (getPersonalizedSongs rnd songsRead historyRead likedRead
                                 currentSong listenedSongs)" and xr: "file_id currentSong = file_id r"
      by blast
    from personalized_origin [OF r] obtain rows d b where
      "d \<in> set (personalized_availableSongs currentSong listenedSongs rows)"
      "r = convertDatabaseSong d b"
      by blast
    with xr show False by (simp add: personalized_availableSongs_def split: if_splits)
  qed
next
  fix x assume x: "x \<in> (case listenedSongs of None \<Rightarrow> {} | Some listened \<Rightarrow> listened)"
  show "x \<notin> id_str ` set (getPersonalizedSongs rnd songsRead historyRead likedRead currentSong
                            listenedSongs)"
  proof
    assume "x \<in> id_str ` set (getPersonalizedSongs rnd songsRead historyRead likedRead
                                 currentSong listenedSongs)"
    then obtain r where r: "r \<in> set (getPersonalizedSongs rnd songsRead historyRead likedRead
                                 currentSong listenedSongs)" and xr: "x = id_str r"
      by blast
    from personalized_origin [OF r] obtain rows d b where
      "d \<in> set (personalized_availableSongs currentSong listenedSongs rows)"
      "r = convertDatabaseSong d b"
      by blast
    with x xr show False
      by (auto simp: personalized_availableSongs_def split: if_splits option.splits)
  qed
next
  fix item s assume item: "item \<in> set historyRows" and s: "songs item = Some s"
  then have ne: "historyRows \<noteq> []" by auto
  show "file_id s \<notin> file_id ` set (fetchPersonalizedSongs user rnd
                                      (Response (Some historyRows) historyErr) trendingRead
                                      allSongsRead likedRead personalizedSongs)"
  proof
    assume "file_id s \<in> file_id ` set (fetchPersonalizedSongs user rnd
                                      (Response (Some historyRows) historyErr) trendingRead
                                      allSongsRead likedRead personalizedSongs)"
    then obtain r where r: "r \<in> set (fetchPersonalizedSongs user rnd
                                      (Response (Some historyRows) historyErr) trendingRead
                                      allSongsRead likedRead personalizedSongs)"
       and xr: "file_id s = file_id r"
      by blast
    from fetch_history_origin [OF ne r] obtain rows d b where
      "d \<in> set (history_availableSongs historyRows rows)" "r = convertDatabaseSong d b"
      by blast
    with xr history_song_in_ids [OF item s] show False
      by (simp add: history_availableSongs_def)
  qed
qed

subsection \<open>Evaluating the examples\<close>

lemma toString_examples: "toString 1 = ''1''" "toString 2 = ''2''" "toString 3 = ''3''"
  by code_simp+

lemma lower_examples:
  "toLowerCase ''Pop'' = ''pop''" "toLowerCase ''rock'' = ''rock''" "toLowerCase ''Rock'' = ''rock''"
  "toLowerCase ''pop'' = ''pop''" "toLowerCase ''Abba'' = ''abba''" "toLowerCase ''Queen'' = ''queen''"
  by code_simp+

lemma normalize_examples:
  "normalize ''Pop'' = ''pop''" "normalize ''rock'' = ''rock''" "normalize ''Rock'' = ''rock''"
  "normalize ''pop'' = ''pop''" "normalize ''Abba'' = ''abba''" "normalize ''Queen'' = ''queen''"
  by code_simp+

lemma exampleSong_fields [simp]:
  "file_id (exampleSong i a ts) = i" "artist (exampleSong i a ts) = a"
  "language (exampleSong i a ts) = ''en''" "tags (exampleSong i a ts) = ts"
  "views (exampleSong i a ts) = None" "likes (exampleSong i a ts) = None"
  by (simp_all add: exampleSong_def)

lemma exampleSong_eq [simp]:
  "exampleSong i a ts = exampleSong j b us \<longleftrightarrow> i = j \<and> a = b \<and> ts = us"
  by (auto simp: exampleSong_def)

lemma popularity_example [simp]: "popularity (exampleSong i a ts) = 0"
  by (simp add: popularity_def or0_def)

lemma exampleCurrent_fields [simp]:
  "file_id exampleCurrent = 2" "artist exampleCurrent = ''Queen''"
  "language exampleCurrent = ''en''" "tags exampleCurrent = Some [''rock'']"
  by (simp_all add: exampleCurrent_def convertDatabaseSong_def)

lemma upt_2: "[0 ..< 2] = [0, Suc 0]"
  by (simp add: upt_rec)

lemma smart_available_example:
  "smart_availableSongs {''2''} exampleCatalog =
     [exampleSong 1 ''Abba'' (Some [''Pop'']), exampleSong 3 ''Queen'' (Some [''Rock'', ''pop''])]"
  by (simp add: smart_availableSongs_def exampleCatalog_def toString_examples)

lemma smart_prefs_example:
  "smart_preferredTags exampleBatch = {''rock''}" "smart_preferredArtists exampleBatch = {''queen''}"
  by (simp_all add: smart_preferredTags_def smart_preferredArtists_def exampleBatch_def
      tagsOrEmpty_def lower_examples)

lemma smart_score_example:
  "smart_score exampleBatch {} 0 (exampleSong 1 ''Abba'' (Some [''Pop''])) = 15"
  "smart_score exampleBatch {} 0 (exampleSong 3 ''Queen'' (Some [''Rock'', ''pop''])) = 70"
proof -
  have "map language exampleBatch = [''en'']"
    by (simp add: exampleBatch_def)
  then show
    "smart_score exampleBatch {} 0 (exampleSong 1 ''Abba'' (Some [''Pop''])) = 15"
    "smart_score exampleBatch {} 0 (exampleSong 3 ''Queen'' (Some [''Rock'', ''pop''])) = 70"
    by (simp_all add: smart_score_def smart_prefs_example smart_matchingTags_def tagsOrEmpty_def
        lower_examples)
qed

lemma smart_scored_example:
  "smart_scoredSongs (\<lambda>i. 0) exampleBatch {}
     [exampleSong 1 ''Abba'' (Some [''Pop'']), exampleSong 3 ''Queen'' (Some [''Rock'', ''pop''])] =
   [\<lparr>song = convertDatabaseSong (exampleSong 1 ''Abba'' (Some [''Pop''])) False, score = 15\<rparr>,
    \<lparr>song = convertDatabaseSong (exampleSong 3 ''Queen'' (Some [''Rock'', ''pop''])) False, score = 70\<rparr>]"
  by (simp add: smart_scoredSongs_def smart_score_example upt_2)

lemma smart_example:
  "getSmartPersonalizedSongs (\<lambda>i. 0) (Response (Some exampleCatalog) False)
         (Response (Some []) False) exampleBatch {''2''} =
     [convertDatabaseSong (exampleSong 3 ''Queen'' (Some [''Rock'', ''pop''])) False,
      convertDatabaseSong (exampleSong 1 ''Abba'' (Some [''Pop''])) False]"
proof -
  have "exampleBatch \<noteq> []" "exampleCatalog \<noteq> []"
    by (simp_all add: exampleBatch_def exampleCatalog_def)
  then show ?thesis
    by (simp add: getSmartPersonalizedSongs_def getSmartPersonalizedSongs_try_def likedIds_def
        smart_available_example smart_scored_example rankTop_def)
qed

theorem excluded_ids_absent_witness:
  "''2'' \<in> {''2''}
   \<and> ''2'' \<notin> id_str ` set (getSmartPersonalizedSongs (\<lambda>i. 0) (Response (Some exampleCatalog) False)
                          (Response (Some []) False) exampleBatch {''2''})
   \<and> getSmartPersonalizedSongs (\<lambda>i. 0) (Response (Some exampleCatalog) False)
         (Response (Some []) False) exampleBatch {''2''} \<noteq> []
   \<and> file_id exampleCurrent
        \<notin> file_id ` set (getPersonalizedSongs (\<lambda>i. 0) (Response (Some exampleCatalog) False)
                            (Response (Some []) False) (Response (Some []) False) exampleCurrent
                            (Some {''3''}))
   \<and> ''3'' \<notin> id_str ` set (getPersonalizedSongs (\<lambda>i. 0) (Response (Some exampleCatalog) False)
                            (Response (Some []) False) (Response (Some []) False) exampleCurrent
                            (Some {''3''}))
   \<and> songs (hd exampleHistory) = Some (exampleSong 1 ''Abba'' (Some [''Pop'']))
   \<and> 1 \<notin> file_id ` set (fetchPersonalizedSongs (Some ''u'') (\<lambda>i. 0)
                           (Response (Some exampleHistory) False) Rejected
                           (Response (Some exampleCatalog) False) (Response (Some []) False) [])"
  using excluded_ids_absent [where excludeSongs = "{''2''}" and rnd = "\<lambda>i. 0"
      and songsRead = "Response (Some exampleCatalog) False"
      and likedRead = "Response (Some []) False" and listenedSongsInBatch = exampleBatch
      and historyRead = "Response (Some []) False" and currentSong = exampleCurrent
      and listenedSongs = "Some {''3''}" and historyRows = exampleHistory and user = "Some ''u''"
      and historyErr = False and trendingRead = Rejected
      and allSongsRead = "Response (Some exampleCatalog) False" and personalizedSongs = "[]"]
  by (simp add: exampleHistory_def smart_example)

subsection \<open>The strategies on a successful read\<close>

lemma rankTop_Nil [simp]: "rankTop n [] = []"
  by (simp add: rankTop_def)

lemma smart_scoredSongs_Nil [simp]: "smart_scoredSongs rnd batch liked [] = []"
  by (simp add: smart_scoredSongs_def)

lemma personalized_scoredSongs_Nil [simp]: "personalized_scoredSongs rnd cur hm liked [] = []"
  by (simp add: personalized_scoredSongs_def)

lemma history_scoredSongs_Nil [simp]: "history_scoredSongs rnd ct ca liked [] = []"
  by (simp add: history_scoredSongs_def)

lemma smart_ranked:
  assumes "batch \<noteq> []"
  shows "getSmartPersonalizedSongs rnd (Response (Some rows) False) (Response likedData likedErr)
           batch excl =
         map song (rankTop 15 (smart_scoredSongs rnd batch (likedIds likedData)
                     (smart_availableSongs excl rows)))"
  using assms
  by (simp add: getSmartPersonalizedSongs_def getSmartPersonalizedSongs_try_def Let_def
      smart_availableSongs_def)

lemma personalized_ranked:
  "getPersonalizedSongs rnd (Response (Some rows) False) (Response historyData historyErr)
           (Response likedData likedErr) cur listened =
         map song (rankTop 10 (personalized_scoredSongs rnd cur (buildHistoryMap historyData)
                     (likedIds likedData) (personalized_availableSongs cur listened rows)))"
  by (simp add: getPersonalizedSongs_def getPersonalizedSongs_try_def Let_def
      personalized_availableSongs_def)

lemma history_ranked:
  assumes "historyRows \<noteq> []"
  shows "fetchPersonalizedSongs (Some u) rnd (Response (Some historyRows) False) trendingRead
           (Response (Some rows) False) (Response likedData likedErr) st =
         map song (rankTop 30 (history_scoredSongs rnd (commonTags (topSongs historyRows))
                     (commonArtists (topSongs historyRows)) (likedIds likedData)
                     (history_availableSongs historyRows rows)))"
  using assms
  by (simp add: fetch_with_history historyRecommendations_def Let_def history_availableSongs_def)

lemma length_smart: "length (getSmartPersonalizedSongs rnd songsRead likedRead batch excl) \<le> 15"
  by (simp add: getSmartPersonalizedSongs_def getSmartPersonalizedSongs_try_def Let_def
      length_rankTop split: response.splits option.splits)

lemma length_personalized:
  "length (getPersonalizedSongs rnd songsRead historyRead likedRead cur listened) \<le> 10"
  by (simp add: getPersonalizedSongs_def getPersonalizedSongs_try_def Let_def
      length_rankTop split: response.splits option.splits)

lemma length_history:
  assumes "historyRows \<noteq> []"
  shows "length (fetchPersonalizedSongs user rnd (Response (Some historyRows) historyErr)
           trendingRead allSongsRead likedRead st) \<le> 30"
  using assms
  by (simp add: fetch_with_history historyRecommendations_def Let_def
      length_rankTop split: response.splits option.splits)

lemma distinct_song_rankTop:
  assumes "distinct (map file_id (map song sc))"
  shows "distinct (map file_id (map song (rankTop n sc)))"
  using distinct_rankTop [of "\<lambda>entry. file_id (song entry)" sc n] assms
  by (simp add: comp_def)

lemma map_file_id_convert:
  "map file_id (map (\<lambda>d. convertDatabaseSong d (f d)) xs) = map file_id xs"
  by simp

lemma distinct_smart:
  assumes "distinct (map file_id rows)"
  shows "distinct (map file_id (getSmartPersonalizedSongs rnd (Response (Some rows) err)
           likedRead batch excl))"
proof -
  have "distinct (map file_id (smart_availableSongs excl rows))"
    using assms by (simp add: smart_availableSongs_def distinct_map_filter)
  then have "distinct (map file_id (map song (rankTop 15 (smart_scoredSongs rnd batch liked
               (smart_availableSongs excl rows)))))" for liked
    by (intro distinct_song_rankTop) (simp only: song_smart_scoredSongs map_file_id_convert)
  then show ?thesis
    by (simp add: getSmartPersonalizedSongs_def getSmartPersonalizedSongs_try_def Let_def
        split: response.splits)
qed

lemma distinct_personalized:
  assumes "distinct (map file_id rows)"
  shows "distinct (map file_id (getPersonalizedSongs rnd (Response (Some rows) err)
           historyRead likedRead cur listened))"
proof -
  have "distinct (map file_id (personalized_availableSongs cur listened rows))"
    using assms by (simp add: personalized_availableSongs_def distinct_map_filter)
  then have "distinct (map file_id (map song (rankTop 10 (personalized_scoredSongs rnd cur hm liked
               (personalized_availableSongs cur listened rows)))))" for hm liked
    by (intro distinct_song_rankTop) (simp only: song_personalized_scoredSongs map_file_id_convert)
  then show ?thesis
    by (simp add: getPersonalizedSongs_def getPersonalizedSongs_try_def Let_def
        split: response.splits)
qed

lemma distinct_history:
  assumes "distinct (map file_id rows)" and "historyRows \<noteq> []"
  shows "distinct (map file_id (fetchPersonalizedSongs user rnd
           (Response (Some historyRows) historyErr) trendingRead (Response (Some rows) err)
           likedRead st))"
proof -
  have "distinct (map file_id (history_availableSongs historyRows rows))"
    using assms by (simp add: history_availableSongs_def distinct_map_filter)
  then have "distinct (map file_id (map song (rankTop 30 (history_scoredSongs rnd ct ca liked
               (history_availableSongs historyRows rows)))))" for ct ca liked
    by (intro distinct_song_rankTop) (simp only: song_history_scoredSongs map_file_id_convert)
  then show ?thesis
    using assms(2)
    by (simp add: fetch_with_history historyRecommendations_def Let_def split: response.splits)
qed

lemma all_returned_smart:
  assumes "batch \<noteq> []" and "length (smart_availableSongs excl rows) \<le> 15"
  shows "mset (getSmartPersonalizedSongs rnd (Response (Some rows) False)
                 (Response likedData likedErr) batch excl) =
         mset (map (\<lambda>d. convertDatabaseSong d (file_id d \<in> likedIds likedData))
                 (smart_availableSongs excl rows))"
proof -
  have "length (smart_scoredSongs rnd batch (likedIds likedData) (smart_availableSongs excl rows))
          \<le> 15"
    using assms(2) by (simp add: smart_scoredSongs_def)
  then have "mset (rankTop 15 (smart_scoredSongs rnd batch (likedIds likedData)
               (smart_availableSongs excl rows))) =
             mset (smart_scoredSongs rnd batch (likedIds likedData)
               (smart_availableSongs excl rows))"
    by (rule mset_rankTop)
  then have "mset (map song (rankTop 15 (smart_scoredSongs rnd batch (likedIds likedData)
               (smart_availableSongs excl rows)))) =
             mset (map song (smart_scoredSongs rnd batch (likedIds likedData)
               (smart_availableSongs excl rows)))"
    by (metis mset_map)
  then show ?thesis
    by (simp only: smart_ranked [OF assms(1)] song_smart_scoredSongs)
qed

subsection \<open>C2: the output of the ranker\<close>

text \<open>
  C2. On a successful catalog read each strategy returns the songs of
  \<open>rankTop N\<close> applied to its scored candidates, with \<open>N\<close> 15 in session mode, 10 in
  contextual mode and 30 in history mode (with a history). The output of \<open>rankTop n\<close>
  has \<open>min n (length candidates)\<close> entries, is ordered by score descending, repeats no
  track identifier when the candidates repeat none, and when at most \<open>n\<close> candidates
  exist it holds exactly the candidates. With unique catalog identifiers each strategy's
  result repeats no identifier, and its length is at most \<open>N\<close> whatever the reads gave.
\<close>

theorem ranker_selector:
  "(listenedSongsInBatch \<noteq> [] \<longrightarrow>
      getSmartPersonalizedSongs rnd (Response (Some rows) False) (Response likedData likedErr)
        listenedSongsInBatch excludeSongs =
      map song (rankTop 15 (smart_scoredSongs rnd listenedSongsInBatch (likedIds likedData)
                  (smart_availableSongs excludeSongs rows))))
   \<and> getPersonalizedSongs rnd (Response (Some rows) False) (Response historyData historyErr)
        (Response likedData likedErr) currentSong listenedSongs =
      map song (rankTop 10 (personalized_scoredSongs rnd currentSong (buildHistoryMap historyData)
                  (likedIds likedData)
                  (personalized_availableSongs currentSong listenedSongs rows)))
   \<and> (historyRows \<noteq> [] \<longrightarrow>
      fetchPersonalizedSongs (Some userId) rnd (Response (Some historyRows) False) trendingRead
        (Response (Some rows) False) (Response likedData likedErr) personalizedSongs =
      map song (rankTop 30 (history_scoredSongs rnd (commonTags (topSongs historyRows))
                  (commonArtists (topSongs historyRows)) (likedIds likedData)
                  (history_availableSongs historyRows rows))))
   \<and> length (rankTop n scoredSongs) = min n (length scoredSongs)
   \<and> sorted_wrt (\<lambda>a b. score b \<le> score a) (rankTop n scoredSongs)
   \<and> (distinct (map file_id (map song scoredSongs)) \<longrightarrow>
        distinct (map file_id (map song (rankTop n scoredSongs))))
   \<and> (length scoredSongs \<le> n \<longrightarrow> mset (rankTop n scoredSongs) = mset scoredSongs)
   \<and> (distinct (map file_id rows) \<longrightarrow>
        distinct (map file_id (getSmartPersonalizedSongs rnd (Response (Some rows) songsErr)
           likedRead listenedSongsInBatch excludeSongs))
        \<and> distinct (map file_id (getPersonalizedSongs rnd (Response (Some rows) songsErr)
           historyRead likedRead currentSong listenedSongs))
        \<and> (historyRows \<noteq> [] \<longrightarrow>
             distinct (map file_id (fetchPersonalizedSongs user rnd
               (Response (Some historyRows) historyErr) trendingRead
               (Response (Some rows) songsErr) likedRead personalizedSongs))))
   \<and> length (getSmartPersonalizedSongs rnd songsRead likedRead listenedSongsInBatch excludeSongs)
        \<le> 15
   \<and> length (getPersonalizedSongs rnd songsRead historyRead likedRead currentSong listenedSongs)
        \<le> 10
   \<and> (historyRows \<noteq> [] \<longrightarrow>
        length (fetchPersonalizedSongs user rnd (Response (Some historyRows) historyErr)
           trendingRead allSongsRead likedRead personalizedSongs) \<le> 30)"
proof (intro conjI impI)
  show "length (rankTop n scoredSongs) = min n (length scoredSongs)"
    by (rule length_rankTop)
  show "sorted_wrt (\<lambda>a b. score b \<le> score a) (rankTop n scoredSongs)"
    by (rule sorted_rankTop)
  show "length (getSmartPersonalizedSongs rnd songsRead likedRead listenedSongsInBatch
          excludeSongs) \<le> 15"
    by (rule length_smart)
  show "length (getPersonalizedSongs rnd songsRead historyRead likedRead currentSong
          listenedSongs) \<le> 10"
    by (rule length_personalized)
  show "getPersonalizedSongs rnd (Response (Some rows) False) (Response historyData historyErr)
        (Response likedData likedErr) currentSong listenedSongs =
      map song (rankTop 10 (personalized_scoredSongs rnd currentSong (buildHistoryMap historyData)
                  (likedIds likedData)
                  (personalized_availableSongs currentSong listenedSongs rows)))"
    by (rule personalized_ranked)
  show "getSmartPersonalizedSongs rnd (Response (Some rows) False) (Response likedData likedErr)
        listenedSongsInBatch excludeSongs =
      map song (rankTop 15 (smart_scoredSongs rnd listenedSongsInBatch (likedIds likedData)
                  (smart_availableSongs excludeSongs rows)))"
    if "listenedSongsInBatch \<noteq> []"
    using that by (rule smart_ranked)
  show "fetchPersonalizedSongs (Some userId) rnd (Response (Some historyRows) False) trendingRead
        (Response (Some rows) False) (Response likedData likedErr) personalizedSongs =
      map song (rankTop 30 (history_scoredSongs rnd (commonTags (topSongs historyRows))
                  (commonArtists (topSongs historyRows)) (likedIds likedData)
                  (history_availableSongs historyRows rows)))"
    if "historyRows \<noteq> []"
    using that by (rule history_ranked)
  show "distinct (map file_id (map song (rankTop n scoredSongs)))"
    if "distinct (map file_id (map song scoredSongs))"
    using that by (rule distinct_song_rankTop)
  show "mset (rankTop n scoredSongs) = mset scoredSongs" if "length scoredSongs \<le> n"
    using that by (rule mset_rankTop)
  show "distinct (map file_id (getSmartPersonalizedSongs rnd (Response (Some rows) songsErr)
           likedRead listenedSongsInBatch excludeSongs))"
    if "distinct (map file_id rows)"
    using that by (rule distinct_smart)
  show "distinct (map file_id (getPersonalizedSongs rnd (Response (Some rows) songsErr)
           historyRead likedRead currentSong listenedSongs))"
    if "distinct (map file_id rows)"
    using that by (rule distinct_personalized)
  show "distinct (map file_id (fetchPersonalizedSongs user rnd
               (Response (Some historyRows) historyErr) trendingRead
               (Response (Some rows) songsErr) likedRead personalizedSongs))"
    if "distinct (map file_id rows)" "historyRows \<noteq> []"
    using that by (rule distinct_history)
  show "length (fetchPersonalizedSongs user rnd (Response (Some historyRows) historyErr)
           trendingRead allSongsRead likedRead personalizedSongs) \<le> 30"
    if "historyRows \<noteq> []"
    using that by (rule length_history)
qed

lemma smart_scored_length_example:
  "length (smart_scoredSongs (\<lambda>i. 0) exampleBatch {} (smart_availableSongs {''2''} exampleCatalog))
     = 2"
  by (simp add: smart_available_example smart_scored_example)

theorem ranker_selector_witness:
  "exampleBatch \<noteq> [] \<and> exampleHistory \<noteq> [] \<and> distinct (map file_id exampleCatalog)
   \<and> getSmartPersonalizedSongs (\<lambda>i. 0) (Response (Some exampleCatalog) False)
        (Response (Some []) False) exampleBatch {''2''} =
      map song (rankTop 15 (smart_scoredSongs (\<lambda>i. 0) exampleBatch {}
                  (smart_availableSongs {''2''} exampleCatalog)))
   \<and> map id_str (getSmartPersonalizedSongs (\<lambda>i. 0) (Response (Some exampleCatalog) False)
        (Response (Some []) False) exampleBatch {''2''}) = [''3'', ''1'']
   \<and> length (smart_scoredSongs (\<lambda>i. 0) exampleBatch {}
                  (smart_availableSongs {''2''} exampleCatalog)) \<le> 15
   \<and> mset (rankTop 15 (smart_scoredSongs (\<lambda>i. 0) exampleBatch {}
                  (smart_availableSongs {''2''} exampleCatalog))) =
      mset (smart_scoredSongs (\<lambda>i. 0) exampleBatch {}
                  (smart_availableSongs {''2''} exampleCatalog))
   \<and> distinct (map file_id (getSmartPersonalizedSongs (\<lambda>i. 0)
        (Response (Some exampleCatalog) False) (Response (Some []) False) exampleBatch {''2''}))
   \<and> distinct (map file_id (getPersonalizedSongs (\<lambda>i. 0)
        (Response (Some exampleCatalog) False) (Response (Some []) False)
        (Response (Some []) False) exampleCurrent None))
   \<and> distinct (map file_id (fetchPersonalizedSongs (Some ''u'') (\<lambda>i. 0)
        (Response (Some exampleHistory) False) Rejected (Response (Some exampleCatalog) False)
        (Response (Some []) False) []))
   \<and> length (fetchPersonalizedSongs (Some ''u'') (\<lambda>i. 0)
        (Response (Some exampleHistory) False) Rejected (Response (Some exampleCatalog) False)
        (Response (Some []) False) []) \<le> 30"
proof -
  have h: "exampleBatch \<noteq> []" "exampleHistory \<noteq> []" "distinct (map file_id exampleCatalog)"
    by (simp_all add: exampleBatch_def exampleHistory_def exampleCatalog_def)
  have l: "likedIds (Some []) = {}"
    by (simp add: likedIds_def)
  have e1: "map id_str (getSmartPersonalizedSongs (\<lambda>i. 0) (Response (Some exampleCatalog) False)
        (Response (Some []) False) exampleBatch {''2''}) = [''3'', ''1'']"
    by (simp add: smart_example toString_examples)
  have e2: "length (smart_scoredSongs (\<lambda>i. 0) exampleBatch {}
                  (smart_availableSongs {''2''} exampleCatalog)) \<le> 15"
    by (simp add: smart_scored_length_example)
  show ?thesis
    using h e1 e2 ranker_selector [where listenedSongsInBatch = exampleBatch and rnd = "\<lambda>i. 0"
        and rows = exampleCatalog and likedData = "Some []" and likedErr = False
        and excludeSongs = "{''2''}" and historyRows = exampleHistory and n = 15
        and scoredSongs = "smart_scoredSongs (\<lambda>i. 0) exampleBatch {}
                  (smart_availableSongs {''2''} exampleCatalog)"
        and songsErr = False and likedRead = "Response (Some []) False"
        and historyRead = "Response (Some []) False" and currentSong = exampleCurrent
        and listenedSongs = None and user = "Some ''u''" and historyErr = False
        and trendingRead = Rejected and allSongsRead = "Response (Some exampleCatalog) False"
        and songsRead = "Response (Some exampleCatalog) False" and personalizedSongs = "[]"
        and historyData = "Some []" and userId = "''u''"]
    unfolding l by blast
qed

subsection \<open>C3: failed reads and empty inputs\<close>

lemma smart_empty:
  "getSmartPersonalizedSongs rnd songsRead likedRead [] excl = []"
  "getSmartPersonalizedSongs rnd Rejected likedRead batch excl = []"
  "getSmartPersonalizedSongs rnd (Response songsData True) likedRead batch excl = []"
  "getSmartPersonalizedSongs rnd (Response None songsErr) likedRead batch excl = []"
  "getSmartPersonalizedSongs rnd (Response (Some []) songsErr) likedRead batch excl = []"
  "getSmartPersonalizedSongs rnd songsRead Rejected batch excl = []"
  by (simp_all add: getSmartPersonalizedSongs_def getSmartPersonalizedSongs_try_def Let_def
      split: response.splits option.splits sum.splits)

lemma smart_no_candidates:
  "smart_availableSongs excl rows = [] \<Longrightarrow>
     getSmartPersonalizedSongs rnd (Response (Some rows) songsErr) likedRead batch excl = []"
  by (simp add: getSmartPersonalizedSongs_def getSmartPersonalizedSongs_try_def Let_def
      split: response.splits option.splits sum.splits)

lemma personalized_empty:
  "getPersonalizedSongs rnd Rejected historyRead likedRead cur listened = []"
  "getPersonalizedSongs rnd (Response songsData True) historyRead likedRead cur listened = []"
  "getPersonalizedSongs rnd (Response None songsErr) historyRead likedRead cur listened = []"
  "getPersonalizedSongs rnd (Response (Some []) songsErr) historyRead likedRead cur listened = []"
  "getPersonalizedSongs rnd songsRead Rejected likedRead cur listened = []"
  "getPersonalizedSongs rnd songsRead historyRead Rejected cur listened = []"
  by (simp_all add: getPersonalizedSongs_def getPersonalizedSongs_try_def Let_def
      split: response.splits option.splits sum.splits)

lemma personalized_no_candidates:
  "personalized_availableSongs cur listened rows = [] \<Longrightarrow>
     getPersonalizedSongs rnd (Response (Some rows) songsErr) historyRead likedRead cur listened = []"
  by (simp add: getPersonalizedSongs_def getPersonalizedSongs_try_def Let_def
      split: response.splits option.splits sum.splits)

lemma fetch_empty:
  "fetchPersonalizedSongs None rnd historyRead trendingRead allSongsRead likedRead st = []"
  "fetchPersonalizedSongs user rnd Rejected trendingRead allSongsRead likedRead st = []"
  "fetchPersonalizedSongs user rnd (Response historyData True) trendingRead allSongsRead
     likedRead st = []"
  by (simp_all add: fetchPersonalizedSongs_def fetchPersonalizedSongs_try_def
      split: option.splits)

lemma fetch_history_empty:
  assumes "historyRows \<noteq> []"
  shows
  "fetchPersonalizedSongs user rnd (Response (Some historyRows) historyErr) trendingRead
     Rejected likedRead st = []"
  "fetchPersonalizedSongs user rnd (Response (Some historyRows) historyErr) trendingRead
     (Response allSongs True) likedRead st = []"
  "fetchPersonalizedSongs user rnd (Response (Some historyRows) historyErr) trendingRead
     (Response None songsErr) likedRead st = []"
  "fetchPersonalizedSongs user rnd (Response (Some historyRows) historyErr) trendingRead
     (Response (Some []) songsErr) likedRead st = []"
  "fetchPersonalizedSongs user rnd (Response (Some historyRows) historyErr) trendingRead
     allSongsRead Rejected st = []"
  using assms
  by (simp_all add: fetch_with_history historyRecommendations_def Let_def
      split: response.splits option.splits)

lemma fetch_no_candidates:
  assumes "historyRows \<noteq> []" and "history_availableSongs historyRows rows = []"
  shows "fetchPersonalizedSongs user rnd (Response (Some historyRows) historyErr) trendingRead
     (Response (Some rows) songsErr) likedRead st = []"
  using assms
  by (simp add: fetch_with_history historyRecommendations_def Let_def
      split: response.splits option.splits)

text \<open>Without history rows the state written is the trending fallback's.\<close>

lemma fetch_without_history:
  assumes "historyData = None \<or> historyData = Some []"
  shows "fetchPersonalizedSongs (Some u) rnd (Response historyData False) trendingRead
           allSongsRead likedRead st =
         (case trendingFallback trendingRead likedRead st of Inl e \<Rightarrow> [] | Inr new \<Rightarrow> new)"
  using assms
  by (auto simp: fetchPersonalizedSongs_def fetchPersonalizedSongs_try_def)

lemma fetch_fallback:
  assumes "historyData = None \<or> historyData = Some []"
  shows
  "fetchPersonalizedSongs (Some u) rnd (Response historyData False) Rejected
     allSongsRead likedRead st = []"
  "fetchPersonalizedSongs (Some u) rnd (Response historyData False)
     (Response (Some trendingRows) trendingErr) allSongsRead Rejected st = []"
  "fetchPersonalizedSongs (Some u) rnd (Response historyData False)
     (Response (Some trendingRows) trendingErr) allSongsRead (Response likedData likedErr) st =
   map (\<lambda>dbSong. convertDatabaseSong dbSong (file_id dbSong \<in> likedIds likedData)) trendingRows"
  by (simp_all add: fetch_without_history [OF assms] trendingFallback_def)

lemma try_caught:
  "getSmartPersonalizedSongs_try rnd songsRead likedRead batch excl = Inl e \<Longrightarrow>
     getSmartPersonalizedSongs rnd songsRead likedRead batch excl = []"
  "getPersonalizedSongs_try rnd songsRead historyRead likedRead cur listened = Inl e \<Longrightarrow>
     getPersonalizedSongs rnd songsRead historyRead likedRead cur listened = []"
  "fetchPersonalizedSongs_try rnd historyJoinRead trendingRead allSongsRead likedRead st = Inl e \<Longrightarrow>
     fetchPersonalizedSongs user rnd historyJoinRead trendingRead allSongsRead likedRead st = []"
  by (simp_all add: getSmartPersonalizedSongs_def getPersonalizedSongs_def
      fetchPersonalizedSongs_def split: option.splits)

text \<open>
  The reads whose failure does not end the strategy: the error field is not acted on,
  and a null \<open>data\<close> is read as no rows.
\<close>

lemma likedIds_None: "likedIds None = likedIds (Some [])"
  by (simp add: likedIds_def)

lemma buildHistoryMap_None: "buildHistoryMap None = buildHistoryMap (Some [])"
  by (simp add: buildHistoryMap_def)

lemma liked_failure_smart:
  "getSmartPersonalizedSongs rnd songsRead (Response None likedErr) batch excl =
   getSmartPersonalizedSongs rnd songsRead (Response (Some []) False) batch excl"
  by (simp add: getSmartPersonalizedSongs_def getSmartPersonalizedSongs_try_def likedIds_None
      cong: response.case_cong option.case_cong if_cong)

lemma history_failure_personalized:
  "getPersonalizedSongs rnd songsRead (Response None historyErr) likedRead cur listened =
   getPersonalizedSongs rnd songsRead (Response (Some []) False) likedRead cur listened"
  by (simp add: getPersonalizedSongs_def getPersonalizedSongs_try_def buildHistoryMap_None
      cong: response.case_cong option.case_cong if_cong)

lemma liked_failure_personalized:
  "getPersonalizedSongs rnd songsRead historyRead (Response None likedErr) cur listened =
   getPersonalizedSongs rnd songsRead historyRead (Response (Some []) False) cur listened"
  by (simp add: getPersonalizedSongs_def getPersonalizedSongs_try_def likedIds_None
      cong: response.case_cong option.case_cong if_cong)

lemma error_field_ignored:
  "getSmartPersonalizedSongs rnd songsRead (Response likedData likedErr) batch excl =
   getSmartPersonalizedSongs rnd songsRead (Response likedData False) batch excl"
  "getPersonalizedSongs rnd songsRead (Response historyData historyErr) likedRead cur listened =
   getPersonalizedSongs rnd songsRead (Response historyData False) likedRead cur listened"
  "getPersonalizedSongs rnd songsRead historyRead (Response likedData likedErr) cur listened =
   getPersonalizedSongs rnd songsRead historyRead (Response likedData False) cur listened"
  "fetchPersonalizedSongs user rnd historyJoinRead trendingRead allSongsRead
     (Response likedData likedErr) st =
   fetchPersonalizedSongs user rnd historyJoinRead trendingRead allSongsRead
     (Response likedData False) st"
  by (simp_all add: getSmartPersonalizedSongs_def getSmartPersonalizedSongs_try_def
      getPersonalizedSongs_def getPersonalizedSongs_try_def fetchPersonalizedSongs_def
      fetchPersonalizedSongs_try_def trendingFallback_def historyRecommendations_def
      cong: response.case_cong option.case_cong if_cong)

lemma liked_failure_fetch:
  "fetchPersonalizedSongs user rnd historyJoinRead trendingRead allSongsRead
     (Response None likedErr) st =
   fetchPersonalizedSongs user rnd historyJoinRead trendingRead allSongsRead
     (Response (Some []) False) st"
  by (simp add: fetchPersonalizedSongs_def fetchPersonalizedSongs_try_def likedIds_None
      trendingFallback_def historyRecommendations_def
      cong: response.case_cong option.case_cong if_cong)

lemma personalized_available_example:
  "personalized_availableSongs exampleCurrent None exampleCatalog =
     [exampleSong 1 ''Abba'' (Some [''Pop'']), exampleSong 3 ''Queen'' (Some [''Rock'', ''pop''])]"
  by (simp add: personalized_availableSongs_def exampleCatalog_def)

lemma length_personalized_scoredSongs [simp]:
  "length (personalized_scoredSongs rnd cur hm liked avail) = length avail"
  by (simp add: personalized_scoredSongs_def)

theorem failed_read_counterexample:
  "getPersonalizedSongs (\<lambda>i. 0) (Response (Some exampleCatalog) False) (Response None True)
     (Response None True) exampleCurrent None \<noteq> []"
proof -
  have "length (getPersonalizedSongs (\<lambda>i. 0) (Response (Some exampleCatalog) False)
     (Response None True) (Response None True) exampleCurrent None) = 2"
    by (simp add: personalized_ranked length_rankTop personalized_available_example)
  then show ?thesis by auto
qed


text \<open>
  C3, as amended. Each strategy returns the empty list when the catalog read fails,
  rejects or gives no rows, when any other read rejects, when no candidate is left after
  the filter, and also: in session mode when nothing was played, in history mode when no
  user is signed in or the history read fails or rejects. The history strategy without
  history rows writes the trending rows, with their liked flags, when the trending read
  gives rows. A throw inside a strategy is caught and gives the empty list. A liked read
  that fails with null data is read as an empty liked set, in every mode, and in
  contextual mode a history read that fails with null data is read as an empty history,
  each of the two on its own, whatever the other read gave, and both together: the
  strategy goes on and returns what it returns for an empty answer of that read. The
  error field of the liked read, and in contextual mode of the history read, changes
  nothing.
\<close>

theorem degrade_to_empty:
  "getSmartPersonalizedSongs rnd songsRead likedRead [] excludeSongs = []
   \<and> getSmartPersonalizedSongs rnd Rejected likedRead listenedSongsInBatch excludeSongs = []
   \<and> getSmartPersonalizedSongs rnd (Response songsData True) likedRead listenedSongsInBatch
        excludeSongs = []
   \<and> getSmartPersonalizedSongs rnd (Response None songsErr) likedRead listenedSongsInBatch
        excludeSongs = []
   \<and> getSmartPersonalizedSongs rnd (Response (Some []) songsErr) likedRead listenedSongsInBatch
        excludeSongs = []
   \<and> getSmartPersonalizedSongs rnd songsRead Rejected listenedSongsInBatch excludeSongs = []
   \<and> (smart_availableSongs excludeSongs rows = [] \<longrightarrow>
        getSmartPersonalizedSongs rnd (Response (Some rows) songsErr) likedRead
          listenedSongsInBatch excludeSongs = [])
   \<and> getPersonalizedSongs rnd Rejected historyRead likedRead currentSong listenedSongs = []
   \<and> getPersonalizedSongs rnd (Response songsData True) historyRead likedRead currentSong
        listenedSongs = []
   \<and> getPersonalizedSongs rnd (Response None songsErr) historyRead likedRead currentSong
        listenedSongs = []
   \<and> getPersonalizedSongs rnd (Response (Some []) songsErr) historyRead likedRead currentSong
        listenedSongs = []
   \<and> getPersonalizedSongs rnd songsRead Rejected likedRead currentSong listenedSongs = []
   \<and> getPersonalizedSongs rnd songsRead historyRead Rejected currentSong listenedSongs = []
   \<and> (personalized_availableSongs currentSong listenedSongs rows = [] \<longrightarrow>
        getPersonalizedSongs rnd (Response (Some rows) songsErr) historyRead likedRead
          currentSong listenedSongs = [])
   \<and> fetchPersonalizedSongs None rnd historyJoinRead trendingRead allSongsRead likedRead
        personalizedSongs = []
   \<and> fetchPersonalizedSongs user rnd Rejected trendingRead allSongsRead likedRead
        personalizedSongs = []
   \<and> fetchPersonalizedSongs user rnd (Response historyData True) trendingRead allSongsRead
        likedRead personalizedSongs = []
   \<and> (historyRows \<noteq> [] \<longrightarrow>
        fetchPersonalizedSongs user rnd (Response (Some historyRows) historyErr) trendingRead
          Rejected likedRead personalizedSongs = []
        \<and> fetchPersonalizedSongs user rnd (Response (Some historyRows) historyErr) trendingRead
          (Response songsData True) likedRead personalizedSongs = []
        \<and> fetchPersonalizedSongs user rnd (Response (Some historyRows) historyErr) trendingRead
          (Response None songsErr) likedRead personalizedSongs = []
        \<and> fetchPersonalizedSongs user rnd (Response (Some historyRows) historyErr) trendingRead
          (Response (Some []) songsErr) likedRead personalizedSongs = []
        \<and> fetchPersonalizedSongs user rnd (Response (Some historyRows) historyErr) trendingRead
          allSongsRead Rejected personalizedSongs = []
        \<and> (history_availableSongs historyRows rows = [] \<longrightarrow>
             fetchPersonalizedSongs user rnd (Response (Some historyRows) historyErr)
               trendingRead (Response (Some rows) songsErr) likedRead personalizedSongs = []))
   \<and> (noHistory = None \<or> noHistory = Some [] \<longrightarrow>
        fetchPersonalizedSongs (Some userId) rnd (Response noHistory False) Rejected
          allSongsRead likedRead personalizedSongs = []
        \<and> fetchPersonalizedSongs (Some userId) rnd (Response noHistory False)
          (Response (Some trendingRows) trendingErr) allSongsRead Rejected personalizedSongs = []
        \<and> fetchPersonalizedSongs (Some userId) rnd (Response noHistory False)
          (Response (Some trendingRows) trendingErr) allSongsRead (Response likedData likedErr)
          personalizedSongs =
          map (\<lambda>dbSong. convertDatabaseSong dbSong (file_id dbSong \<in> likedIds likedData))
            trendingRows)
   \<and> (getSmartPersonalizedSongs_try rnd songsRead likedRead listenedSongsInBatch excludeSongs
          = Inl e \<longrightarrow>
        getSmartPersonalizedSongs rnd songsRead likedRead listenedSongsInBatch excludeSongs = [])
   \<and> (getPersonalizedSongs_try rnd songsRead historyRead likedRead currentSong listenedSongs
          = Inl e \<longrightarrow>
        getPersonalizedSongs rnd songsRead historyRead likedRead currentSong listenedSongs = [])
   \<and> (fetchPersonalizedSongs_try rnd historyJoinRead trendingRead allSongsRead likedRead
          personalizedSongs = Inl e \<longrightarrow>
        fetchPersonalizedSongs user rnd historyJoinRead trendingRead allSongsRead likedRead
          personalizedSongs = [])
   \<and> getSmartPersonalizedSongs rnd songsRead (Response None likedErr) listenedSongsInBatch
        excludeSongs =
      getSmartPersonalizedSongs rnd songsRead (Response (Some []) False) listenedSongsInBatch
        excludeSongs
   \<and> getPersonalizedSongs rnd songsRead (Response None historyErr) likedRead
        currentSong listenedSongs =
      getPersonalizedSongs rnd songsRead (Response (Some []) False) likedRead
        currentSong listenedSongs
   \<and> getPersonalizedSongs rnd songsRead historyRead (Response None likedErr)
        currentSong listenedSongs =
      getPersonalizedSongs rnd songsRead historyRead (Response (Some []) False)
        currentSong listenedSongs
   \<and> getPersonalizedSongs rnd songsRead (Response None historyErr) (Response None likedErr)
        currentSong listenedSongs =
      getPersonalizedSongs rnd songsRead (Response (Some []) False) (Response (Some []) False)
        currentSong listenedSongs
   \<and> getSmartPersonalizedSongs rnd songsRead (Response likedData likedErr)
        listenedSongsInBatch excludeSongs =
      getSmartPersonalizedSongs rnd songsRead (Response likedData False)
        listenedSongsInBatch excludeSongs
   \<and> getPersonalizedSongs rnd songsRead (Response historyRowsData historyErr) likedRead
        currentSong listenedSongs =
      getPersonalizedSongs rnd songsRead (Response historyRowsData False) likedRead
        currentSong listenedSongs
   \<and> getPersonalizedSongs rnd songsRead historyRead (Response likedData likedErr)
        currentSong listenedSongs =
      getPersonalizedSongs rnd songsRead historyRead (Response likedData False)
        currentSong listenedSongs
   \<and> fetchPersonalizedSongs user rnd historyJoinRead trendingRead allSongsRead
        (Response likedData likedErr) personalizedSongs =
      fetchPersonalizedSongs user rnd historyJoinRead trendingRead allSongsRead
        (Response likedData False) personalizedSongs
   \<and> fetchPersonalizedSongs user rnd historyJoinRead trendingRead allSongsRead
        (Response None likedErr) personalizedSongs =
      fetchPersonalizedSongs user rnd historyJoinRead trendingRead allSongsRead
        (Response (Some []) False) personalizedSongs"
  by (intro conjI impI)
     (simp_all only: smart_empty smart_no_candidates personalized_empty personalized_no_candidates
        fetch_empty fetch_history_empty fetch_no_candidates fetch_fallback try_caught
        liked_failure_smart history_failure_personalized liked_failure_personalized
        liked_failure_fetch simp_thms, (rule error_field_ignored)+)


theorem degrade_to_empty_witness:
  "smart_availableSongs {''2''} [exampleSong 2 ''Queen'' (Some [''rock''])] = []
   \<and> getSmartPersonalizedSongs (\<lambda>i. 0)
        (Response (Some [exampleSong 2 ''Queen'' (Some [''rock''])]) False)
        (Response (Some []) False) exampleBatch {''2''} = []
   \<and> personalized_availableSongs exampleCurrent None [exampleSong 2 ''Queen'' (Some [''rock''])]
        = []
   \<and> getPersonalizedSongs (\<lambda>i. 0)
        (Response (Some [exampleSong 2 ''Queen'' (Some [''rock''])]) False)
        (Response (Some []) False) (Response (Some []) False) exampleCurrent None = []
   \<and> exampleHistory \<noteq> []
   \<and> history_availableSongs exampleHistory [exampleSong 1 ''Abba'' (Some [''Pop''])] = []
   \<and> fetchPersonalizedSongs (Some ''u'') (\<lambda>i. 0) (Response (Some exampleHistory) False)
        Rejected (Response (Some [exampleSong 1 ''Abba'' (Some [''Pop''])]) False)
        (Response (Some []) False) [] = []
   \<and> fetchPersonalizedSongs (Some ''u'') (\<lambda>i. 0) (Response (Some exampleHistory) False)
        Rejected Rejected (Response (Some []) False) [] = []
   \<and> fetchPersonalizedSongs (Some ''u'') (\<lambda>i. 0) (Response (Some []) False)
        (Response (Some exampleCatalog) False) Rejected (Response (Some []) False) [] =
      map (\<lambda>dbSong. convertDatabaseSong dbSong (file_id dbSong \<in> likedIds (Some [])))
        exampleCatalog
   \<and> getSmartPersonalizedSongs_try (\<lambda>i. 0) Rejected (Response (Some []) False) exampleBatch
        {''2''} = Inl Rejection
   \<and> getSmartPersonalizedSongs (\<lambda>i. 0) Rejected (Response (Some []) False) exampleBatch
        {''2''} = []
   \<and> getPersonalizedSongs_try (\<lambda>i. 0) Rejected (Response (Some []) False)
        (Response (Some []) False) exampleCurrent None = Inl Rejection
   \<and> fetchPersonalizedSongs_try (\<lambda>i. 0) Rejected Rejected Rejected (Response (Some []) False) []
        = Inl Rejection"
proof -
  note t = degrade_to_empty [where rnd = "\<lambda>i. 0" and songsRead = Rejected
      and likedRead = "Response (Some []) False" and excludeSongs = "{''2''}"
      and listenedSongsInBatch = exampleBatch and songsErr = False
      and historyRead = "Response (Some []) False" and currentSong = exampleCurrent
      and listenedSongs = None and historyJoinRead = Rejected and trendingRead = Rejected
      and allSongsRead = Rejected and personalizedSongs = "[]" and user = "Some ''u''"
      and historyRows = exampleHistory and historyErr = False and noHistory = "Some []"
      and userId = "''u''" and trendingRows = exampleCatalog and trendingErr = False
      and likedData = "Some []" and likedErr = False and e = Rejection]
  note t2 = t [where rows = "[exampleSong 2 ''Queen'' (Some [''rock''])]"]
  note t1 = t [where rows = "[exampleSong 1 ''Abba'' (Some [''Pop''])]"]
  have a: "smart_availableSongs {''2''} [exampleSong 2 ''Queen'' (Some [''rock''])] = []"
    by (simp add: smart_availableSongs_def toString_examples)
  have b: "personalized_availableSongs exampleCurrent None
             [exampleSong 2 ''Queen'' (Some [''rock''])] = []"
    by (simp add: personalized_availableSongs_def)
  have c: "exampleHistory \<noteq> []"
    by (simp add: exampleHistory_def)
  have d: "history_availableSongs exampleHistory [exampleSong 1 ''Abba'' (Some [''Pop''])] = []"
    by (simp add: history_availableSongs_def historySongIds_def topSongs_def exampleHistory_def)
  have e: "getSmartPersonalizedSongs_try (\<lambda>i. 0) Rejected (Response (Some []) False)
             exampleBatch {''2''} = Inl Rejection"
    by (simp add: getSmartPersonalizedSongs_try_def exampleBatch_def)
  have f: "getPersonalizedSongs_try (\<lambda>i. 0) Rejected (Response (Some []) False)
             (Response (Some []) False) exampleCurrent None = Inl Rejection"
    by (simp add: getPersonalizedSongs_try_def)
  have g: "fetchPersonalizedSongs_try (\<lambda>i. 0) Rejected Rejected Rejected
             (Response (Some []) False) [] = Inl Rejection"
    by (simp add: fetchPersonalizedSongs_try_def)
  from a b c d e f g t1 t2 show ?thesis
    by blast
qed

subsection \<open>C4: the trending fallback\<close>

lemma sorted_trendingSongs:
  "sorted_wrt (\<lambda>a b. or0 (views b) \<le> or0 (views a)) (trendingSongs catalog)"
proof -
  have "sorted (map (\<lambda>d. - int (or0 (views d))) (sort_key (\<lambda>d. - int (or0 (views d))) catalog))"
    by (rule sorted_sort_key)
  then have "sorted (take 20 (map (\<lambda>d. - int (or0 (views d)))
               (sort_key (\<lambda>d. - int (or0 (views d))) catalog)))"
    by (rule sorted_wrt_take)
  then have "sorted (map (\<lambda>d. - int (or0 (views d))) (trendingSongs catalog))"
    by (simp add: trendingSongs_def take_map)
  then show ?thesis
    by (simp add: sorted_wrt_map)
qed

lemma views_convert [simp]: "views (convertDatabaseSong d b) = views d"
  by (simp add: convertDatabaseSong_def)

text \<open>
  C4. With a signed-in user, a history read that succeeds with no rows and a trending
  read answered with the catalog ordered by views descending and limited to 20, the
  history strategy writes those rows converted, in that order: at most 20 songs (all of
  the catalog when it has fewer), each one a catalog row, ordered by view count
  descending, and each one's liked flag says whether its identifier is in the set built
  from the liked read.
\<close>

theorem trending_fallback:
  assumes "historyData = None \<or> historyData = Some []"
  shows "fetchPersonalizedSongs (Some userId) rnd (Response historyData False)
           (Response (Some (trendingSongs catalog)) trendingErr) allSongsRead
           (Response likedData likedErr) personalizedSongs =
         map (\<lambda>dbSong. convertDatabaseSong dbSong (file_id dbSong \<in> likedIds likedData))
           (take 20 (sort_key (\<lambda>dbSong. - int (or0 (views dbSong))) catalog))
       \<and> length (fetchPersonalizedSongs (Some userId) rnd (Response historyData False)
           (Response (Some (trendingSongs catalog)) trendingErr) allSongsRead
           (Response likedData likedErr) personalizedSongs) = min 20 (length catalog)
       \<and> sorted_wrt (\<lambda>a b. or0 (views b) \<le> or0 (views a))
           (fetchPersonalizedSongs (Some userId) rnd (Response historyData False)
           (Response (Some (trendingSongs catalog)) trendingErr) allSongsRead
           (Response likedData likedErr) personalizedSongs)
       \<and> (\<forall>s \<in> set (fetchPersonalizedSongs (Some userId) rnd (Response historyData False)
           (Response (Some (trendingSongs catalog)) trendingErr) allSongsRead
           (Response likedData likedErr) personalizedSongs).
             isLiked s = (file_id s \<in> likedIds likedData)
             \<and> (\<exists>dbSong \<in> set catalog. s = convertDatabaseSong dbSong (isLiked s)))"
proof -
  let ?conv = "\<lambda>dbSong. convertDatabaseSong dbSong (file_id dbSong \<in> likedIds likedData)"
  have r: "fetchPersonalizedSongs (Some userId) rnd (Response historyData False)
           (Response (Some (trendingSongs catalog)) trendingErr) allSongsRead
           (Response likedData likedErr) personalizedSongs = map ?conv (trendingSongs catalog)"
    using assms by (rule fetch_fallback(3))
  have s: "sorted_wrt (\<lambda>a b. or0 (views b) \<le> or0 (views a)) (map ?conv (trendingSongs catalog))"
    using sorted_trendingSongs [of catalog] by (simp add: sorted_wrt_map)
  have sub: "set (trendingSongs catalog) \<subseteq> set catalog"
    unfolding trendingSongs_def
    using set_take_subset [of 20 "sort_key (\<lambda>dbSong. - int (or0 (views dbSong))) catalog"]
    by simp
  have m: "\<forall>s \<in> set (map ?conv (trendingSongs catalog)).
             isLiked s = (file_id s \<in> likedIds likedData)
             \<and> (\<exists>dbSong \<in> set catalog. s = convertDatabaseSong dbSong (isLiked s))"
    using sub by auto
  show ?thesis
    unfolding r using s m by (simp add: trendingSongs_def)
qed

lemma trending_example:
  "take 20 (sort_key (\<lambda>dbSong. - int (or0 (views dbSong))) exampleViews) =
     [(exampleSong 2 ''Queen'' (Some [''rock''])) \<lparr> views := Some 100 \<rparr>,
      (exampleSong 1 ''Abba'' (Some [''Pop''])) \<lparr> views := Some 5 \<rparr>,
      exampleSong 3 ''Queen'' (Some [''Rock'', ''pop''])]"
  by (simp add: exampleViews_def or0_def exampleSong_def)

theorem trending_fallback_witness:
  "((Some [] :: history_song_row list option) = None \<or>
    (Some [] :: history_song_row list option) = Some [])
   \<and> map (\<lambda>s. (id_str s, views s, isLiked s))
        (fetchPersonalizedSongs (Some ''u'') (\<lambda>i. 0) (Response (Some []) False)
           (Response (Some (trendingSongs exampleViews)) False) Rejected
           (Response (Some [\<lparr> song_id = 1 \<rparr>]) False) []) =
      [(''2'', Some 100, False), (''1'', Some 5, True), (''3'', None, False)]"
  using trending_fallback [where historyData = "Some []" and userId = "''u''" and rnd = "\<lambda>i. 0"
      and catalog = exampleViews and trendingErr = False and allSongsRead = Rejected
      and likedData = "Some [\<lparr> song_id = 1 \<rparr>]" and likedErr = False
      and personalizedSongs = "[]"]
  by (simp add: trending_example likedIds_def toString_examples exampleSong_def)

subsection \<open>C5: the history weight\<close>

text \<open>
  C5. For a candidate whose identifier the history map sends to \<open>m\<close> minutes, the
  history term of the contextual score is \<open>min (m * 2) 20\<close>: it never exceeds 20, it is
  not negative when \<open>m\<close> is not, and it is one addend of the score. Without an entry
  the term is 0.
\<close>

theorem history_weight_capped:
  "(historyMap (file_id dbSong) = Some m \<longrightarrow>
      historyBoost historyMap dbSong = min (m * 2) 20
      \<and> (0 \<le> m \<longrightarrow> 0 \<le> historyBoost historyMap dbSong)
      \<and> personalized_score currentSong historyMap userLikedSongs r dbSong =
          real (length (personalized_matchingTags currentSong dbSong)) * 15
          + (if artist dbSong = artist currentSong then 25 else 0)
          + (if language dbSong = language currentSong then 10 else 0)
          + min (m * 2) 20
          + popularity dbSong
          + (if file_id dbSong \<in> userLikedSongs then 8 else 0)
          + r * 3)
   \<and> (historyMap (file_id dbSong) = None \<longrightarrow> historyBoost historyMap dbSong = 0)
   \<and> historyBoost historyMap dbSong \<le> 20"
  by (simp add: historyBoost_def personalized_score_def split: option.splits)

lemma buildHistoryMap_example:
  "buildHistoryMap (Some [\<lparr> song_id = 1, minutes_listened = Some 1000 \<rparr>]) =
     [1 \<mapsto> 1000]"
  by (simp add: buildHistoryMap_def minutesOr0_def)

theorem history_weight_capped_witness:
  "buildHistoryMap (Some [\<lparr> song_id = 1, minutes_listened = Some 1000 \<rparr>])
      (file_id (exampleSong 1 ''Abba'' (Some [''Pop'']))) = Some 1000
   \<and> historyBoost (buildHistoryMap (Some [\<lparr> song_id = 1, minutes_listened = Some 1000 \<rparr>]))
        (exampleSong 1 ''Abba'' (Some [''Pop''])) = 20
   \<and> personalized_score exampleCurrent
        (buildHistoryMap (Some [\<lparr> song_id = 1, minutes_listened = Some 1000 \<rparr>])) {} 0
        (exampleSong 1 ''Abba'' (Some [''Pop''])) = 30
   \<and> buildHistoryMap (Some [\<lparr> song_id = 1, minutes_listened = Some 1000 \<rparr>])
      (file_id (exampleSong 3 ''Queen'' (Some [''Rock'', ''pop'']))) = None
   \<and> historyBoost (buildHistoryMap (Some [\<lparr> song_id = 1, minutes_listened = Some 1000 \<rparr>]))
        (exampleSong 3 ''Queen'' (Some [''Rock'', ''pop''])) = 0"
proof -
  have p: "personalized_matchingTags exampleCurrent (exampleSong 1 ''Abba'' (Some [''Pop''])) = []"
    by (simp add: personalized_matchingTags_def)
  show ?thesis
    using history_weight_capped [where m = 1000 and r = 0 and currentSong = exampleCurrent
        and dbSong = "exampleSong 1 ''Abba'' (Some [''Pop''])" and userLikedSongs = "{}"
        and historyMap = "buildHistoryMap (Some [\<lparr> song_id = 1, minutes_listened = Some 1000 \<rparr>])"]
      history_weight_capped [where
        dbSong = "exampleSong 3 ''Queen'' (Some [''Rock'', ''pop''])"
        and historyMap = "buildHistoryMap (Some [\<lparr> song_id = 1, minutes_listened = Some 1000 \<rparr>])"]
    by (simp add: buildHistoryMap_example p)
qed

subsection \<open>C6: monotone in the number of matching tags\<close>

text \<open>
  C6. In each strategy, take two candidates that differ in their tags only, score them
  against the same preferences, liked set, history map and random draw. If the second
  has at least as many matching tags as the first, its score without the jitter (the
  draw times 2 in session mode, times 3 in the other two) is at least the first's.
\<close>

theorem score_monotone_in_matches:
  "(length (smart_matchingTags (smart_preferredTags listenedSongsInBatch) dbSong)
      \<le> length (smart_matchingTags (smart_preferredTags listenedSongsInBatch)
            (dbSong \<lparr> tags := otherTags \<rparr>)) \<longrightarrow>
    smart_score listenedSongsInBatch userLikedSongs r dbSong - r * 2
      \<le> smart_score listenedSongsInBatch userLikedSongs r (dbSong \<lparr> tags := otherTags \<rparr>) - r * 2)
   \<and> (length (personalized_matchingTags currentSong dbSong)
      \<le> length (personalized_matchingTags currentSong (dbSong \<lparr> tags := otherTags \<rparr>)) \<longrightarrow>
    personalized_score currentSong historyMap userLikedSongs r dbSong - r * 3
      \<le> personalized_score currentSong historyMap userLikedSongs r
           (dbSong \<lparr> tags := otherTags \<rparr>) - r * 3)
   \<and> (length (history_matchingTags cTags dbSong)
      \<le> length (history_matchingTags cTags (dbSong \<lparr> tags := otherTags \<rparr>)) \<longrightarrow>
    history_score cTags cArtists userLikedSongs r dbSong - r * 3
      \<le> history_score cTags cArtists userLikedSongs r (dbSong \<lparr> tags := otherTags \<rparr>) - r * 3)"
  by (simp add: smart_score_def personalized_score_def history_score_def Let_def popularity_def
      historyBoost_def)


lemma exampleSong_tags_update [simp]:
  "(exampleSong i a ts) \<lparr> tags := us \<rparr> = exampleSong i a us"
  by (simp add: exampleSong_def)

lemma matching_examples:
  "smart_matchingTags {''rock''} (exampleSong 1 ''Abba'' (Some [''Pop''])) = []"
  "smart_matchingTags {''rock''} (exampleSong 1 ''Abba'' (Some [''rock''])) = [''rock'']"
  "personalized_matchingTags exampleCurrent (exampleSong 1 ''Abba'' (Some [''Pop''])) = []"
  "personalized_matchingTags exampleCurrent (exampleSong 1 ''Abba'' (Some [''rock''])) = [''rock'']"
  "history_matchingTags [''rock''] (exampleSong 1 ''Abba'' (Some [''Pop''])) = []"
  "history_matchingTags [''rock''] (exampleSong 1 ''Abba'' (Some [''rock''])) = [''rock'']"
  by (simp_all add: smart_matchingTags_def tagsOrEmpty_def lower_examples
      personalized_matchingTags_def history_matchingTags_def normalize_examples)

theorem score_monotone_in_matches_witness:
  "length (smart_matchingTags (smart_preferredTags exampleBatch)
            (exampleSong 1 ''Abba'' (Some [''Pop''])))
     \<le> length (smart_matchingTags (smart_preferredTags exampleBatch)
            (exampleSong 1 ''Abba'' (Some [''rock''])))
   \<and> smart_score exampleBatch {} (1 / 2) (exampleSong 1 ''Abba'' (Some [''Pop''])) - (1 / 2) * 2
     \<le> smart_score exampleBatch {} (1 / 2) (exampleSong 1 ''Abba'' (Some [''rock''])) - (1 / 2) * 2
   \<and> length (personalized_matchingTags exampleCurrent (exampleSong 1 ''Abba'' (Some [''Pop''])))
     \<le> length (personalized_matchingTags exampleCurrent (exampleSong 1 ''Abba'' (Some [''rock''])))
   \<and> personalized_score exampleCurrent Map.empty {} (1 / 2)
        (exampleSong 1 ''Abba'' (Some [''Pop''])) - (1 / 2) * 3
     \<le> personalized_score exampleCurrent Map.empty {} (1 / 2)
        (exampleSong 1 ''Abba'' (Some [''rock''])) - (1 / 2) * 3
   \<and> length (history_matchingTags [''rock''] (exampleSong 1 ''Abba'' (Some [''Pop''])))
     \<le> length (history_matchingTags [''rock''] (exampleSong 1 ''Abba'' (Some [''rock''])))
   \<and> history_score [''rock''] [''queen''] {} (1 / 2)
        (exampleSong 1 ''Abba'' (Some [''Pop''])) - (1 / 2) * 3
     \<le> history_score [''rock''] [''queen''] {} (1 / 2)
        (exampleSong 1 ''Abba'' (Some [''rock''])) - (1 / 2) * 3
   \<and> smart_score exampleBatch {} (1 / 2) (exampleSong 1 ''Abba'' (Some [''Pop''])) = 16
   \<and> smart_score exampleBatch {} (1 / 2) (exampleSong 1 ''Abba'' (Some [''rock''])) = 41"
proof -
  have l: "map language exampleBatch = [''en'']"
    by (simp add: exampleBatch_def)
  have v: "smart_score exampleBatch {} (1 / 2) (exampleSong 1 ''Abba'' (Some [''Pop''])) = 16"
    "smart_score exampleBatch {} (1 / 2) (exampleSong 1 ''Abba'' (Some [''rock''])) = 41"
    by (simp_all add: smart_score_def matching_examples smart_prefs_example l lower_examples)
  show ?thesis
    using v score_monotone_in_matches [where listenedSongsInBatch = exampleBatch
        and dbSong = "exampleSong 1 ''Abba'' (Some [''Pop''])" and otherTags = "Some [''rock'']"
        and userLikedSongs = "{}" and r = "1 / 2" and currentSong = exampleCurrent
        and historyMap = Map.empty and cTags = "[''rock'']" and cArtists = "[''queen'']"]
    by (simp add: matching_examples smart_prefs_example)
qed

subsection \<open>C9: the history map\<close>





lemma song_ids_upsert:
  "map song_id (upsert_history_minutes sid m table) =
     (if sid \<in> set (map song_id table) then map song_id table else map song_id table @ [sid])"
  by (induction table) auto

lemma distinct_upsert:
  "distinct (map song_id table) \<Longrightarrow> distinct (map song_id (upsert_history_minutes sid m table))"
  by (simp add: song_ids_upsert)











subsection \<open>C10: missing optional fields\<close>




subsection \<open>C7: how tags are compared\<close>

lemma map_fst_countUp:
  "map fst (countUp key counts) =
     (if key \<in> set (map fst counts) then map fst counts else map fst counts @ [key])"
  by (induction key counts rule: countUp.induct) auto

lemma keys_countUp: "fst ` set (countUp key counts) = insert key (fst ` set counts)"
proof -
  have "set (map fst (countUp key counts)) = insert key (set (map fst counts))"
    by (auto simp: map_fst_countUp)
  then show ?thesis by simp
qed

lemma keys_foldl_countUp:
  "fst ` set (foldl (\<lambda>counts key. countUp key counts) counts0 keys) =
     fst ` set counts0 \<union> set keys"
  by (induction keys arbitrary: counts0) (auto simp: keys_countUp)

lemma set_mostCommon: "set (mostCommon n counts) \<subseteq> fst ` set counts"
proof -
  have "set (take n (sort_key (\<lambda>entry. - int (snd entry)) counts)) \<subseteq> set counts"
    using set_take_subset [of n "sort_key (\<lambda>entry. - int (snd entry)) counts"] by simp
  then show ?thesis
    by (auto simp: mostCommon_def)
qed

lemma set_mostCommon_all:
  assumes "length counts \<le> n"
  shows "set (mostCommon n counts) = fst ` set counts"
  using assms by (simp add: mostCommon_def)

lemma commonTags_subset:
  "set (commonTags topRows) \<subseteq> (\<Union>s \<in> set topRows. normalize ` set (tagsOrEmpty s))"
  using set_mostCommon [of 5 "tagCounts topRows"]
  by (auto simp: commonTags_def tagCounts_def keys_foldl_countUp)

lemma commonArtists_subset:
  "set (commonArtists topRows) \<subseteq> (\<lambda>s. normalize (artist s)) ` set topRows"
  using set_mostCommon [of 3 "artistCounts topRows"]
  by (auto simp: commonArtists_def artistCounts_def keys_foldl_countUp)

theorem tag_case_counterexample:
  "toLowerCase ''Rock'' \<in> toLowerCase ` set (tagsOrEmpty exampleCurrent)
   \<and> personalized_matchingTags exampleCurrent (exampleSong 3 ''Queen'' (Some [''Rock''])) = []"
  by (simp add: tagsOrEmpty_def lower_examples personalized_matchingTags_def)

text \<open>
  C7, as amended. In session mode the preferred-tag set holds the lower-cased tags of
  the songs played, and a candidate tag counts as a match exactly when its lower-cased
  form is in that set, so candidate tags that differ in letter case only match alike.
  In history mode tags are lower-cased and trimmed before they are counted, the common
  tags are among those of the history tracks, and a candidate tag counts as a match
  exactly when its lower-cased, trimmed form is one of the common tags. In contextual
  mode a candidate tag counts as a match exactly when the tag itself, as stored, is one
  of the current track's tags: that comparison is sensitive to letter case.
\<close>

theorem tag_matching:
  "smart_preferredTags listenedSongsInBatch =
     (\<Union>s \<in> set listenedSongsInBatch. toLowerCase ` set (tagsOrEmpty s))
   \<and> length (smart_matchingTags preferredTags dbSong) =
       length (filter (\<lambda>tag. toLowerCase tag \<in> preferredTags) (tagsOrEmpty dbSong))
   \<and> (map toLowerCase ts = map toLowerCase us \<longrightarrow>
        smart_matchingTags preferredTags (dbSong \<lparr> tags := Some ts \<rparr>) =
        smart_matchingTags preferredTags (dbSong \<lparr> tags := Some us \<rparr>))
   \<and> set (commonTags topRows) \<subseteq> (\<Union>s \<in> set topRows. normalize ` set (tagsOrEmpty s))
   \<and> length (history_matchingTags cTags dbSong) =
       length (filter (\<lambda>tag. trim (toLowerCase tag) \<in> set cTags) (tagsOrEmpty dbSong))
   \<and> (map toLowerCase ts = map toLowerCase us \<longrightarrow>
        history_matchingTags cTags (dbSong \<lparr> tags := Some ts \<rparr>) =
        history_matchingTags cTags (dbSong \<lparr> tags := Some us \<rparr>))
   \<and> personalized_matchingTags currentSong dbSong =
       filter (\<lambda>tag. tag \<in> set (tagsOrEmpty currentSong)) (tagsOrEmpty dbSong)"
proof (intro conjI impI)
  show "smart_preferredTags listenedSongsInBatch =
     (\<Union>s \<in> set listenedSongsInBatch. toLowerCase ` set (tagsOrEmpty s))"
    by (auto simp: smart_preferredTags_def)
  show "length (smart_matchingTags preferredTags dbSong) =
       length (filter (\<lambda>tag. toLowerCase tag \<in> preferredTags) (tagsOrEmpty dbSong))"
    by (simp add: smart_matchingTags_def filter_map comp_def)
  show "smart_matchingTags preferredTags (dbSong \<lparr> tags := Some ts \<rparr>) =
        smart_matchingTags preferredTags (dbSong \<lparr> tags := Some us \<rparr>)"
    if "map toLowerCase ts = map toLowerCase us"
    using that by (simp add: smart_matchingTags_def tagsOrEmpty_def)
  show "set (commonTags topRows) \<subseteq> (\<Union>s \<in> set topRows. normalize ` set (tagsOrEmpty s))"
    by (rule commonTags_subset)
  show "length (history_matchingTags cTags dbSong) =
       length (filter (\<lambda>tag. trim (toLowerCase tag) \<in> set cTags) (tagsOrEmpty dbSong))"
    by (simp add: history_matchingTags_def tagsOrEmpty_def filter_map comp_def normalize_def
        split: option.splits)
  show "history_matchingTags cTags (dbSong \<lparr> tags := Some ts \<rparr>) =
        history_matchingTags cTags (dbSong \<lparr> tags := Some us \<rparr>)"
    if "map toLowerCase ts = map toLowerCase us"
  proof -
    have "map normalize ts = map trim (map toLowerCase ts)"
      "map normalize us = map trim (map toLowerCase us)"
      by (simp_all add: normalize_def)
    with that have "map normalize ts = map normalize us"
      by simp
    then show ?thesis
      by (simp add: history_matchingTags_def)
  qed
  show "personalized_matchingTags currentSong dbSong =
       filter (\<lambda>tag. tag \<in> set (tagsOrEmpty currentSong)) (tagsOrEmpty dbSong)"
    by (cases "tags currentSong"; cases "tags dbSong")
       (simp_all add: personalized_matchingTags_def tagsOrEmpty_def)
qed


lemma commonTags_example: "commonTags (topSongs exampleHistory) = [''pop'']"
  by (simp add: commonTags_def mostCommon_def tagCounts_def topSongs_def exampleHistory_def
      tagsOrEmpty_def normalize_examples)

lemma commonArtists_example: "commonArtists (topSongs exampleHistory) = [''abba'']"
  by (simp add: commonArtists_def mostCommon_def artistCounts_def topSongs_def exampleHistory_def
      normalize_examples)

theorem tag_matching_witness:
  "map toLowerCase [''Rock''] = map toLowerCase [''rock'']
   \<and> smart_preferredTags exampleBatch = {''rock''}
   \<and> smart_matchingTags {''rock''} (exampleSong 3 ''Queen'' (Some [''Rock''])) = [''rock'']
   \<and> smart_matchingTags {''rock''} (exampleSong 3 ''Queen'' (Some [''Rock''])) =
      smart_matchingTags {''rock''} (exampleSong 3 ''Queen'' (Some [''rock'']))
   \<and> commonTags (topSongs exampleHistory) = [''pop'']
   \<and> history_matchingTags [''rock''] (exampleSong 3 ''Queen'' (Some [''Rock''])) =
      history_matchingTags [''rock''] (exampleSong 3 ''Queen'' (Some [''rock'']))
   \<and> personalized_matchingTags exampleCurrent (exampleSong 3 ''Queen'' (Some [''Rock'', ''rock'']))
      = [''rock'']"
proof -
  have e: "map toLowerCase [''Rock''] = map toLowerCase [''rock'']"
    by (simp add: lower_examples)
  have m: "smart_matchingTags {''rock''} (exampleSong 3 ''Queen'' (Some [''Rock''])) = [''rock'']"
    by (simp add: smart_matchingTags_def tagsOrEmpty_def lower_examples)
  note t = tag_matching [where ts = "[''Rock'']" and us = "[''rock'']"
        and listenedSongsInBatch = exampleBatch and preferredTags = "{''rock''}"
        and dbSong = "exampleSong 3 ''Queen'' (Some [''Rock'', ''rock''])"
        and topRows = "topSongs exampleHistory" and cTags = "[''rock'']"
        and currentSong = exampleCurrent]
  from t e have
    s: "smart_matchingTags {''rock''}
          ((exampleSong 3 ''Queen'' (Some [''Rock'', ''rock''])) \<lparr> tags := Some [''Rock''] \<rparr>) =
        smart_matchingTags {''rock''}
          ((exampleSong 3 ''Queen'' (Some [''Rock'', ''rock''])) \<lparr> tags := Some [''rock''] \<rparr>)"
    and h: "history_matchingTags [''rock'']
          ((exampleSong 3 ''Queen'' (Some [''Rock'', ''rock''])) \<lparr> tags := Some [''Rock''] \<rparr>) =
        history_matchingTags [''rock'']
          ((exampleSong 3 ''Queen'' (Some [''Rock'', ''rock''])) \<lparr> tags := Some [''rock''] \<rparr>)"
    and p: "personalized_matchingTags exampleCurrent
          (exampleSong 3 ''Queen'' (Some [''Rock'', ''rock''])) =
        filter (\<lambda>tag. tag \<in> set (tagsOrEmpty exampleCurrent))
          (tagsOrEmpty (exampleSong 3 ''Queen'' (Some [''Rock'', ''rock''])))"
    by blast+
  from s h have "smart_matchingTags {''rock''} (exampleSong 3 ''Queen'' (Some [''Rock''])) =
      smart_matchingTags {''rock''} (exampleSong 3 ''Queen'' (Some [''rock'']))"
    "history_matchingTags [''rock''] (exampleSong 3 ''Queen'' (Some [''Rock''])) =
      history_matchingTags [''rock''] (exampleSong 3 ''Queen'' (Some [''rock'']))"
    by simp_all
  moreover from p have "personalized_matchingTags exampleCurrent
      (exampleSong 3 ''Queen'' (Some [''Rock'', ''rock''])) = [''rock'']"
    by (simp add: tagsOrEmpty_def)
  ultimately show ?thesis
    using e m by (simp only: smart_prefs_example commonTags_example simp_thms)
qed

subsection \<open>C8: the artist bonus\<close>

theorem artist_trim_counterexample:
  "toLowerCase ''Queen'' = trim (toLowerCase ''Queen '')
   \<and> smart_score [convertDatabaseSong (exampleSong 2 ''Queen '' None) False] {} 0
        (exampleSong 3 ''Queen'' None) = 15"
proof -
  have "toLowerCase ''Queen'' = ''queen''" "toLowerCase ''Queen '' = ''queen ''"
    "trim ''queen '' = ''queen''"
    by code_simp+
  then show ?thesis
    by (simp add: smart_score_def smart_matchingTags_def smart_preferredArtists_def
        smart_preferredTags_def tagsOrEmpty_def convertDatabaseSong_def)
qed

text \<open>
  C8, as amended. In session mode the artist names of the songs played are lower-cased,
  not trimmed, before they go into the preferred-artist set, and the bonus of 30 is
  given exactly when the candidate's artist name, lower-cased, equals the lower-cased
  artist name of a song played: the match is insensitive to letter case, not to
  surrounding white space. In history mode the artist names of the history tracks are
  lower-cased and trimmed before they are counted, the common artists are among them,
  and the bonus of 25 is given exactly when the candidate's artist name, lower-cased and
  trimmed, is one of the common artists. In contextual mode the bonus of 25 is given
  exactly when the candidate's artist name equals the current track's as stored.
\<close>

theorem artist_bonus:
  "smart_score listenedSongsInBatch userLikedSongs r dbSong =
     real (length (smart_matchingTags (smart_preferredTags listenedSongsInBatch) dbSong)) * 25
     + (if \<exists>s \<in> set listenedSongsInBatch. toLowerCase (artist dbSong) = toLowerCase (artist s)
        then 30 else 0)
     + (if language dbSong \<in> set (map language listenedSongsInBatch) then 15 else 0)
     + popularity dbSong
     + (if file_id dbSong \<in> userLikedSongs then 10 else 0)
     + r * 2
   \<and> personalized_score currentSong historyMap userLikedSongs r dbSong =
     real (length (personalized_matchingTags currentSong dbSong)) * 15
     + (if artist dbSong = artist currentSong then 25 else 0)
     + (if language dbSong = language currentSong then 10 else 0)
     + historyBoost historyMap dbSong
     + popularity dbSong
     + (if file_id dbSong \<in> userLikedSongs then 8 else 0)
     + r * 3
   \<and> history_score cTags cArtists userLikedSongs r dbSong =
     real (length (history_matchingTags cTags dbSong)) * 20
     + (if trim (toLowerCase (artist dbSong)) \<in> set cArtists then 25 else 0)
     + (if file_id dbSong \<in> userLikedSongs then 10 else 0)
     + popularity dbSong
     + r * 3
   \<and> set (commonArtists topRows) \<subseteq> (\<lambda>s. trim (toLowerCase (artist s))) ` set topRows"
proof -
  have "(toLowerCase (artist dbSong) \<in> smart_preferredArtists listenedSongsInBatch) =
        (\<exists>s \<in> set listenedSongsInBatch. toLowerCase (artist dbSong) = toLowerCase (artist s))"
    by (auto simp: smart_preferredArtists_def)
  moreover have "set (commonArtists topRows) \<subseteq> (\<lambda>s. trim (toLowerCase (artist s))) ` set topRows"
    using commonArtists_subset [of topRows] by (simp add: normalize_def)
  ultimately show ?thesis
    by (simp add: smart_score_def personalized_score_def history_score_def Let_def normalize_def)
qed

theorem artist_bonus_witness:
  "(\<exists>s \<in> set exampleBatch.
      toLowerCase (artist (exampleSong 3 ''QUEEN'' None)) = toLowerCase (artist s))
   \<and> smart_score exampleBatch {} 0 (exampleSong 3 ''QUEEN'' None) = 45
   \<and> personalized_score exampleCurrent Map.empty {} 0 (exampleSong 3 ''QUEEN'' None) = 10
   \<and> history_score [] [''queen''] {} 0 (exampleSong 3 '' QUEEN '' None) = 25
   \<and> commonArtists (topSongs exampleHistory) = [''abba'']"
proof -
  have l: "toLowerCase ''QUEEN'' = ''queen''" "toLowerCase ''Queen'' = ''queen''"
    "trim (toLowerCase '' QUEEN '') = ''queen''"
    by code_simp+
  have b: "set exampleBatch = {exampleCurrent}" "map language exampleBatch = [''en'']"
    by (simp_all add: exampleBatch_def)
  have m: "smart_matchingTags P (exampleSong 3 a None) = []"
    "personalized_matchingTags exampleCurrent (exampleSong 3 a None) = []"
    "history_matchingTags [] (exampleSong 3 a None) = []"
    "historyBoost Map.empty (exampleSong 3 a None) = 0" for P a
    by (simp_all add: smart_matchingTags_def personalized_matchingTags_def
        history_matchingTags_def tagsOrEmpty_def historyBoost_def)
  show ?thesis
    using artist_bonus [where listenedSongsInBatch = exampleBatch and userLikedSongs = "{}"
        and r = 0 and dbSong = "exampleSong 3 ''QUEEN'' None" and currentSong = exampleCurrent
        and historyMap = Map.empty and cTags = "[]" and cArtists = "[''queen'']"
        and topRows = "topSongs exampleHistory"]
      artist_bonus [where userLikedSongs = "{}"
        and r = 0 and dbSong = "exampleSong 3 '' QUEEN '' None"
        and cTags = "[]" and cArtists = "[''queen'']"]
    by (simp add: l b m commonArtists_example)
qed

end
